theory Spec2Isabelle
  imports Main "HOL-Library.Multiset"
begin

section \<open>JavaScript string helpers\<close>

text \<open>
  \<^verbatim>\<open>String.prototype.startsWith\<close> and \<^verbatim>\<open>String.prototype.includes\<close> on a literal
  needle. Strings are byte lists; every needle the router uses is ASCII, so a match on
  bytes is a match on UTF-16 code units and conversely.
\<close>

fun startsWith :: "string \<Rightarrow> string \<Rightarrow> bool" where
  "startsWith s [] = True"
| "startsWith [] (c # cs) = False"
| "startsWith (x # xs) (c # cs) = (x = c \<and> startsWith xs cs)"

fun js_includes :: "string \<Rightarrow> string \<Rightarrow> bool" where
  "js_includes [] needle = (needle = [])"
| "js_includes (x # xs) needle = (startsWith (x # xs) needle \<or> js_includes xs needle)"

text \<open>Decimal rendering of a number inside a template literal (\<^verbatim>\<open>`${status}`\<close>).\<close>

definition digit_char :: "nat \<Rightarrow> char" where
  "digit_char d = ''0123456789'' ! d"

fun decimal :: "nat \<Rightarrow> string" where
  "decimal n = (if n < 10 then [digit_char n] else decimal (n div 10) @ [digit_char (n mod 10)])"

declare decimal.simps [simp del]

section \<open>SPARouter.fetchPageData\<close>

text \<open>A JavaScript error object, as far as the router inspects it.\<close>

record js_error =
  err_name :: string
  err_message :: string

text \<open>
  What one call of \<^verbatim>\<open>fetch\<close> under the 10 second abort timer can do: resolve with a
  response (status, status text and what \<^verbatim>\<open>response.json()\<close> then gives), reject with an
  error of the browser's (a network-level failure), or still be pending when the timer
  fires, in which case \<^verbatim>\<open>controller.abort()\<close> makes it reject with an \<^verbatim>\<open>AbortError\<close>.
\<close>

datatype 'a fetch_outcome =
    Responded nat string "js_error + 'a"
  | Rejected js_error
  | DeadlineElapsed

text \<open>The network: the outcome of the fetch of a URL on the attempt with a given retry count.\<close>

type_synonym 'a network = "string \<Rightarrow> nat \<Rightarrow> 'a fetch_outcome"

definition response_ok :: "nat \<Rightarrow> bool" where
  "response_ok status = (200 \<le> status \<and> status \<le> 299)"

definition endpoint :: "string \<Rightarrow> string" where
  "endpoint path = ''/api/page-content'' @ path"

definition http_error :: "nat \<Rightarrow> string \<Rightarrow> js_error" where
  "http_error status statusText =
     \<lparr>err_name = ''Error'', err_message = ''HTTP '' @ decimal status @ '': '' @ statusText\<rparr>"

definition timeout_error :: js_error where
  "timeout_error =
     \<lparr>err_name = ''Error'', err_message = ''Request timeout - please check your connection''\<rparr>"

definition abort_error :: js_error where
  "abort_error = \<lparr>err_name = ''AbortError'', err_message = ''signal is aborted without reason''\<rparr>"

definition maxRetries :: nat where
  "maxRetries = 3"

definition retryDelay :: "nat \<Rightarrow> nat" where
  "retryDelay retryCount = 1000 * 2 ^ retryCount"

text \<open>The test of the \<^verbatim>\<open>catch\<close> block that decides whether a caught error is retried.\<close>

definition looks_like_network_error :: "js_error \<Rightarrow> bool" where
  "looks_like_network_error e =
     (js_includes (err_message e) ''fetch'' \<or> js_includes (err_message e) ''network'')"

text \<open>
  How one pass through the body of \<^verbatim>\<open>fetchPageData\<close> ends: it returns the payload,
  throws, or waits \<^verbatim>\<open>retryDelay\<close> and returns the promise of the recursive call.
\<close>

datatype 'a attempt = Return 'a | Throw js_error | Retry

text \<open>The \<^verbatim>\<open>catch\<close> clause, for the error caught at the given retry count.\<close>

definition catch_block :: "nat \<Rightarrow> js_error \<Rightarrow> 'a attempt" where
  "catch_block retryCount error =
     (if err_name error = ''AbortError'' then Throw timeout_error
      else if retryCount < maxRetries \<and> looks_like_network_error error then Retry
      else Throw error)"

text \<open>
  The \<^verbatim>\<open>try\<close> block followed by the \<^verbatim>\<open>catch\<close> clause. The \<^verbatim>\<open>throw\<close> for a response
  that is not ok sits inside the \<^verbatim>\<open>try\<close> and so lands in the \<^verbatim>\<open>catch\<close> clause, as
  does a failure of \<^verbatim>\<open>response.json()\<close> and the rejection of \<^verbatim>\<open>fetch\<close> itself.
\<close>

definition try_block :: "'a fetch_outcome \<Rightarrow> nat \<Rightarrow> 'a attempt" where
  "try_block outcome retryCount =
     (case outcome of
        Responded status statusText body \<Rightarrow>
          if \<not> response_ok status then
            if status \<ge> 500 \<and> retryCount < maxRetries then Retry
            else catch_block retryCount (http_error status statusText)
          else (case body of Inr data \<Rightarrow> Return data | Inl error \<Rightarrow> catch_block retryCount error)
      | Rejected error \<Rightarrow> catch_block retryCount error
      | DeadlineElapsed \<Rightarrow> catch_block retryCount abort_error)"

text \<open>
  \<^verbatim>\<open>fetchPageData(path, retryCount)\<close>. The result is what the promise settles to
  (\<open>Inl\<close> the error it rejects with, \<open>Inr\<close> the payload) and the delays, in
  milliseconds, of the timers it waited on, in order: one per retry. The recursive
  calls are returned without \<^verbatim>\<open>await\<close>, so their rejections pass through unchanged.
\<close>

function fetchPageData :: "'a network \<Rightarrow> string \<Rightarrow> nat \<Rightarrow> (js_error + 'a) \<times> nat list" where
  "fetchPageData net path retryCount =
     (case try_block (net (endpoint path) retryCount) retryCount of
        Return data \<Rightarrow> (Inr data, [])
      | Throw error \<Rightarrow> (Inl error, [])
      | Retry \<Rightarrow>
          (let (r, waits) = fetchPageData net path (retryCount + 1)
           in (r, retryDelay retryCount # waits)))"
  by pat_completeness auto
termination
  by (relation "measure (\<lambda>(net, path, retryCount). maxRetries - retryCount)")
    (auto simp: try_block_def catch_block_def split: fetch_outcome.splits sum.splits if_splits)

declare fetchPageData.simps [simp del]

text \<open>
  The outcomes of an attempt that bring an abort into the \<^verbatim>\<open>catch\<close> clause: the deadline
  elapsed, or the browser's own error is named \<^verbatim>\<open>AbortError\<close>. An error of the browser
  that already carries the timeout text is counted with them, since the clause passes
  the errors it does not retry on as they are.
\<close>

definition reports_abort :: "js_error \<Rightarrow> bool" where
  "reports_abort e =
     (err_name e = ''AbortError'' \<or> err_message e = err_message timeout_error)"

definition deadline_or_abort :: "'a fetch_outcome \<Rightarrow> bool" where
  "deadline_or_abort outcome =
     (case outcome of
        DeadlineElapsed \<Rightarrow> True
      | Rejected e \<Rightarrow> reports_abort e
      | Responded status statusText body \<Rightarrow>
          (case body of Inl e \<Rightarrow> response_ok status \<and> reports_abort e | Inr data \<Rightarrow> False))"

section \<open>SPARouter: state, rendering and navigation\<close>

text \<open>
  The JSON a fragment request resolves to: an object with the fields of a page fragment,
  or a falsy value (\<^verbatim>\<open>null\<close>, \<^verbatim>\<open>false\<close>, \<^verbatim>\<open>0\<close>, \<^verbatim>\<open>""\<close>), which \<^verbatim>\<open>navigate\<close>
  tests with \<^verbatim>\<open>if (pageData)\<close>. An absent or empty \<^verbatim>\<open>title\<close> is the empty string
  (both are falsy); absent \<^verbatim>\<open>scripts\<close> or \<^verbatim>\<open>styles\<close> are the empty list (nothing to
  iterate either way). \<open>pf_content_scripts\<close> and \<open>pf_content_links\<close> are not fields of
  the JSON: they describe the markup in \<^verbatim>\<open>content\<close>, as the \<^verbatim>\<open>src\<close> of the script
  elements and the \<^verbatim>\<open>href\<close> of the link elements that it contains.
\<close>

record page_fragment =
  pf_content :: string
  pf_title :: string
  pf_scripts :: "string list"
  pf_styles :: "string list"
  pf_content_scripts :: "string list"
  pf_content_links :: "string list"

datatype payload = Falsy | Fragment page_fragment

record history_entry =
  he_path :: string
  he_timestamp :: int
  he_title :: string

datatype history_call =
    PushState history_entry string string
  | ReplaceState history_entry string string

datatype persistence_call = BeforeNavigation | AfterNavigationIn50ms

text \<open>
  The router object together with the parts of the document and of the window that its
  methods read and write. The \<open>has_\<close> fields say which elements of the DOM contract
  \<^verbatim>\<open>getElementById\<close> finds. \<open>history_calls\<close> and \<open>persistence_calls\<close> log the calls
  made on \<^verbatim>\<open>history\<close> and on \<^verbatim>\<open>window.componentPersistence\<close>, oldest first.
  \<open>head_scripts\<close> and \<open>head_styles\<close> are the elements that \<^verbatim>\<open>loadScripts\<close> and
  \<^verbatim>\<open>loadStyles\<close> have appended to the head, \<open>content_scripts\<close> and \<open>content_links\<close>
  the script and link elements inside the content region, \<open>other_scripts\<close> and
  \<open>other_links\<close> those anywhere else in the document. \<open>highlight_raises\<close> describes
  the navigation links of the document: \<^verbatim>\<open>updateActiveNavigation(path)\<close> raises a
  \<^verbatim>\<open>TypeError\<close> when \<^verbatim>\<open>#active-background\<close> exists and the link it finds for the path is
  not inside a \<^verbatim>\<open>ul\<close>, since it calls a method on the \<^verbatim>\<open>null\<close> that \<^verbatim>\<open>closest('ul')\<close>
  gives. \<open>highlighted_path\<close> is the path last passed to \<^verbatim>\<open>updateActiveNavigation\<close>.
\<close>

record router =
  currentRoute :: "string option"
  cache :: "string \<rightharpoonup> payload"
  preloadCache :: "string \<rightharpoonup> payload"
  isNavigating :: bool
  lastFailedPath :: "string option"
  has_contentContainer :: bool
  content_innerHTML :: string
  document_title :: string
  head_scripts :: "string list"
  head_styles :: "string list"
  content_scripts :: "string list"
  content_links :: "string list"
  other_scripts :: "string list"
  other_links :: "string list"
  script_passes :: nat
  highlighted_path :: "string option"
  highlight_raises :: "string \<Rightarrow> bool"
  history_calls :: "history_call list"
  has_componentPersistence :: bool
  persistence_calls :: "persistence_call list"
  has_loadingIndicator :: bool
  loadingIndicator_hidden :: bool
  has_loadingOverlay :: bool
  loadingOverlay_hidden :: bool
  loadingTimeout_pending :: bool
  has_errorContainer :: bool
  has_errorMessage :: bool
  errorContainer_hidden :: bool
  errorMessage_text :: string
  autoHide_timers :: nat
  has_retryButton :: bool
  retryButton_onclick :: bool
  has_dismissButton :: bool
  dismissButton_onclick :: bool

definition showLoadingState :: "router \<Rightarrow> router" where
  "showLoadingState r =
     (let r1 = (if has_loadingIndicator r then r\<lparr>loadingIndicator_hidden := False\<rparr> else r)
      in r1\<lparr>loadingTimeout_pending := True\<rparr>)"

definition hideLoadingState :: "router \<Rightarrow> router" where
  "hideLoadingState r =
     (let r1 = r\<lparr>loadingTimeout_pending := False\<rparr>;
          r2 = (if has_loadingIndicator r1 then r1\<lparr>loadingIndicator_hidden := True\<rparr> else r1)
      in if has_loadingOverlay r2 then r2\<lparr>loadingOverlay_hidden := True\<rparr> else r2)"

definition hideErrorState :: "router \<Rightarrow> router" where
  "hideErrorState r = (if has_errorContainer r then r\<lparr>errorContainer_hidden := True\<rparr> else r)"

text \<open>
  \<^verbatim>\<open>showErrorState(error)\<close>. It is not given the path that failed; it records
  \<^verbatim>\<open>this.currentRoute\<close> as \<^verbatim>\<open>lastFailedPath\<close>.
\<close>

definition showErrorState :: "router \<Rightarrow> js_error \<Rightarrow> router" where
  "showErrorState r error =
     (let r1 = r\<lparr>lastFailedPath := currentRoute r\<rparr>;
          r2 = (if has_errorContainer r1 \<and> has_errorMessage r1
                then r1\<lparr>errorMessage_text :=
                          (if err_message error \<noteq> [] then err_message error
                           else ''An unexpected error occurred while loading the page.''),
                        errorContainer_hidden := False,
                        autoHide_timers := autoHide_timers r1 + 1\<rparr>
                else r1);
          r3 = (if has_retryButton r2 then r2\<lparr>retryButton_onclick := True\<rparr> else r2)
      in if has_dismissButton r3 then r3\<lparr>dismissButton_onclick := True\<rparr> else r3)"

text \<open>
  The handler that \<^verbatim>\<open>showErrorState\<close> installs on the retry button: the state after
  \<^verbatim>\<open>hideErrorState\<close> and the path it passes to \<^verbatim>\<open>navigate\<close>, if it calls it
  (\<^verbatim>\<open>lastFailedPath\<close> must be truthy: set and not the empty string).
\<close>

definition retry_onclick :: "router \<Rightarrow> router \<times> string option" where
  "retry_onclick r =
     (hideErrorState r,
      case lastFailedPath r of
        None \<Rightarrow> None
      | Some p \<Rightarrow> if p \<noteq> [] then Some p else None)"

text \<open>
  \<^verbatim>\<open>loadScripts\<close> and \<^verbatim>\<open>loadStyles\<close>: a URL is appended to the head unless
  \<^verbatim>\<open>document.querySelector\<close> finds an element with it, in the head or \<open>elsewhere\<close> in
  the document. The URLs are taken to be free of quotes, backslashes and line breaks, so
  that each stands for itself between the quotes of the selector.
\<close>

fun loadUrls :: "string list \<Rightarrow> string list \<Rightarrow> string list \<Rightarrow> string list" where
  "loadUrls head elsewhere [] = head"
| "loadUrls head elsewhere (u # us) =
     loadUrls (if u \<in> set head \<or> u \<in> set elsewhere then head else head @ [u]) elsewhere us"

text \<open>
  \<^verbatim>\<open>renderPage(pageData)\<close>. The markup is assigned first, so the queries of
  \<^verbatim>\<open>loadScripts\<close> and \<^verbatim>\<open>loadStyles\<close> see the elements of the new content.
  \<^verbatim>\<open>executePageScripts\<close> replaces each script element of the content by a copy.
\<close>

definition renderPage :: "router \<Rightarrow> page_fragment \<Rightarrow> router" where
  "renderPage r pageData =
     (if \<not> has_contentContainer r then r
      else r\<lparr>content_innerHTML := pf_content pageData,
             content_scripts := pf_content_scripts pageData,
             content_links := pf_content_links pageData,
             document_title :=
               (if pf_title pageData \<noteq> [] then pf_title pageData else document_title r),
             head_scripts :=
               loadUrls (head_scripts r) (pf_content_scripts pageData @ other_scripts r)
                 (pf_scripts pageData),
             head_styles :=
               loadUrls (head_styles r) (pf_content_links pageData @ other_links r)
                 (pf_styles pageData),
             script_passes := script_passes r + 1\<rparr>)"

text \<open>\<^verbatim>\<open>this.cache.get(path) || this.preloadCache.get(path)\<close>: the first truthy one.\<close>

definition truthy :: "payload option \<Rightarrow> page_fragment option" where
  "truthy v = (case v of Some (Fragment f) \<Rightarrow> Some f | _ \<Rightarrow> None)"

definition cached_pageData :: "router \<Rightarrow> string \<Rightarrow> page_fragment option" where
  "cached_pageData r path =
     (case truthy (cache r path) of Some f \<Rightarrow> Some f | None \<Rightarrow> truthy (preloadCache r path))"

definition null_container_error :: js_error where
  "null_container_error = \<lparr>err_name = ''TypeError'', err_message = ''navContainer is null''\<rparr>"

text \<open>
  The body of \<^verbatim>\<open>if (pageData) { ... }\<close> in \<^verbatim>\<open>navigate\<close>; \<open>now\<close> is \<^verbatim>\<open>Date.now()\<close>. The
  result is the state and, when \<^verbatim>\<open>updateActiveNavigation\<close> raised, the error (a
  \<^verbatim>\<open>TypeError\<close>, with a message that depends on the browser): the statements before it
  have run by then, and it has marked the link it found. The path is one of the panel's
  own, for which \<^verbatim>\<open>history.pushState\<close> does not raise.
\<close>

definition render_and_record ::
  "router \<Rightarrow> string \<Rightarrow> bool \<Rightarrow> bool \<Rightarrow> int \<Rightarrow> page_fragment \<Rightarrow> router \<times> js_error option" where
  "render_and_record r path pushState isInitial now pageData =
     (let r1 = renderPage r pageData;
          r2 = r1\<lparr>cache := (cache r1)(path \<mapsto> Fragment pageData),
                  preloadCache := (preloadCache r1)(path := None)\<rparr>;
          shown_title = (if pf_title pageData \<noteq> [] then pf_title pageData else document_title r2);
          entry = \<lparr>he_path = path, he_timestamp = now, he_title = shown_title\<rparr>;
          r3 = (if pushState \<and> \<not> isInitial
                then r2\<lparr>history_calls := history_calls r2 @ [PushState entry shown_title path]\<rparr>
                else if isInitial
                then r2\<lparr>history_calls := history_calls r2 @ [ReplaceState entry shown_title path]\<rparr>
                else r2);
          r4 = r3\<lparr>currentRoute := Some path, highlighted_path := Some path\<rparr>
      in if highlight_raises r4 path then (r4, Some null_container_error)
         else if has_componentPersistence r4
         then (r4\<lparr>persistence_calls := persistence_calls r4 @ [AfterNavigationIn50ms]\<rparr>, None)
         else (r4, None))"

text \<open>The \<^verbatim>\<open>catch\<close> clause of \<^verbatim>\<open>navigate\<close>, for an error raised after the render.\<close>

definition catch_render :: "router \<times> js_error option \<Rightarrow> router" where
  "catch_render rendered =
     (case snd rendered of None \<Rightarrow> fst rendered | Some error \<Rightarrow> showErrorState (fst rendered) error)"

definition finally_block :: "router \<Rightarrow> router" where
  "finally_block r = (hideLoadingState r)\<lparr>isNavigating := False\<rparr>"

text \<open>
  \<^verbatim>\<open>navigate(path, pushState, isInitial)\<close> is an \<^verbatim>\<open>async\<close> function: it runs to its first
  \<^verbatim>\<open>await\<close> when called and is resumed when the awaited promise settles.
  \<open>navigate_call\<close> is the part that runs at the call. It ends in one of three ways:
  the guard returned at once, the fragment was cached and the whole body ran, or the call
  is suspended at \<^verbatim>\<open>await this.fetchPageData(path)\<close>.
\<close>

datatype call_end = Suppressed | Completed | AwaitingFetch

text \<open>The statements of \<^verbatim>\<open>navigate\<close> between the guard and the \<^verbatim>\<open>try\<close> block.\<close>

definition before_try :: "router \<Rightarrow> bool \<Rightarrow> router" where
  "before_try r isInitial =
     (let r1 = showLoadingState (r\<lparr>isNavigating := True\<rparr>)
      in if has_componentPersistence r1 \<and> \<not> isInitial
         then r1\<lparr>persistence_calls := persistence_calls r1 @ [BeforeNavigation]\<rparr>
         else r1)"

definition navigate_call :: "router \<Rightarrow> string \<Rightarrow> bool \<Rightarrow> bool \<Rightarrow> int \<Rightarrow> router \<times> call_end" where
  "navigate_call r path pushState isInitial now =
     (if isNavigating r \<and> \<not> isInitial then (r, Suppressed)
      else
        let r2 = before_try r isInitial
        in case cached_pageData r2 path of
             Some pageData \<Rightarrow>
               (finally_block
                  (catch_render (render_and_record r2 path pushState isInitial now pageData)),
                Completed)
           | None \<Rightarrow> (r2, AwaitingFetch))"

text \<open>
  \<open>navigate_resume\<close> is the rest of the body, run on the state the router has when
  \<^verbatim>\<open>fetchPageData\<close> settles with \<open>result\<close>.
\<close>

definition navigate_resume ::
  "router \<Rightarrow> string \<Rightarrow> bool \<Rightarrow> bool \<Rightarrow> int \<Rightarrow> js_error + payload \<Rightarrow> router" where
  "navigate_resume r path pushState isInitial now result =
     finally_block
       (case result of
          Inr (Fragment pageData) \<Rightarrow>
            catch_render (render_and_record r path pushState isInitial now pageData)
        | Inr Falsy \<Rightarrow> r
        | Inl error \<Rightarrow> showErrorState r error)"

text \<open>A whole navigation with nothing else running between the call and the resumption.\<close>

definition navigate :: "payload network \<Rightarrow> router \<Rightarrow> string \<Rightarrow> bool \<Rightarrow> bool \<Rightarrow> int \<Rightarrow> router" where
  "navigate net r path pushState isInitial now =
     (case navigate_call r path pushState isInitial now of
        (r', AwaitingFetch) \<Rightarrow>
          navigate_resume r' path pushState isInitial now (fst (fetchPageData net path 0))
      | (r', _) \<Rightarrow> r')"

text \<open>
  \<^verbatim>\<open>handlePopState(e)\<close>, as far as it runs at the event. \<open>state_path\<close> is
  \<^verbatim>\<open>e.state?.path\<close> and \<open>pathname\<close> is \<^verbatim>\<open>window.location.pathname\<close>. The result is the
  state and how the call of \<^verbatim>\<open>navigate(path, false)\<close> ended, or \<open>None\<close> when the handler
  returned before it.
\<close>

definition handlePopState ::
  "router \<Rightarrow> string option \<Rightarrow> string \<Rightarrow> int \<Rightarrow> router \<times> call_end option" where
  "handlePopState r state_path pathname now =
     (let path = (case state_path of
                    Some p \<Rightarrow> if p \<noteq> [] then p else pathname
                  | None \<Rightarrow> pathname)
      in if currentRoute r = Some path then (r, None)
         else
           let r1 = (if isNavigating r then hideLoadingState (r\<lparr>isNavigating := False\<rparr>) else r);
               called = navigate_call r1 path False False now
           in (fst called, Some (snd called)))"

section \<open>Click interception\<close>

text \<open>
  An element as the listeners see it: its attributes in source order and its class list.
  \<^verbatim>\<open>link.target\<close> reflects the \<^verbatim>\<open>target\<close> attribute and is empty without one.
\<close>

record element =
  attributes :: "(string \<times> string) list"
  classList :: "string list"

definition getAttribute :: "'a element_scheme \<Rightarrow> string \<Rightarrow> string option" where
  "getAttribute el a = map_of (attributes el) a"

definition hasAttribute :: "'a element_scheme \<Rightarrow> string \<Rightarrow> bool" where
  "hasAttribute el a = (getAttribute el a \<noteq> None)"

definition target_property :: "element \<Rightarrow> string" where
  "target_property el = (case getAttribute el ''target'' of Some t \<Rightarrow> t | None \<Rightarrow> [])"

datatype click_effect = PreventDefault | Navigate string

text \<open>
  The click listener of \<^verbatim>\<open>setupNavigationInterception\<close>. Its argument is what
  \<^verbatim>\<open>e.target.closest('a[href]')\<close> gives: the nearest enclosing link, if any. The result
  lists what the listener does to the event and the router, in order; the empty list is
  the early \<^verbatim>\<open>return\<close>, which leaves the click to the browser.
\<close>

definition click_listener :: "element option \<Rightarrow> click_effect list" where
  "click_listener closest_link =
     (case closest_link of
        None \<Rightarrow> []
      | Some link \<Rightarrow>
          (case getAttribute link ''href'' of
             None \<Rightarrow> []
           | Some href \<Rightarrow>
               if href = [] \<or> startsWith href ''#'' \<or> startsWith href ''mailto:''
                  \<or> startsWith href ''tel:'' \<or> js_includes href ''://''
                  \<or> hasAttribute link ''download'' \<or> target_property link = ''_blank''
               then []
               else if ''external-link'' \<in> set (classList link) \<or> hasAttribute link ''data-no-spa''
               then []
               else [PreventDefault, Navigate href]))"

section \<open>IntelligentPreloader\<close>

record preloader_config =
  hoverDelay :: nat
  maxConcurrentPreloads :: nat
  maxCacheSize :: nat

definition default_config :: preloader_config where
  "default_config = \<lparr>hoverDelay = 100, maxConcurrentPreloads = 2, maxCacheSize = 20\<rparr>"

record preload_task =
  task_href :: string
  task_priority :: int
  task_source :: string

record cache_info =
  info_data :: payload
  info_timestamp :: int
  info_priority :: int
  info_source :: string

text \<open>
  The preloader with the router it was given. \<^verbatim>\<open>preloadQueue\<close> is a \<^verbatim>\<open>Set\<close> of
  object literals, each a fresh object: it keeps insertion order and never merges two
  requests, so it is a list. \<^verbatim>\<open>preloadingInProgress\<close> is a \<^verbatim>\<open>Set\<close> of strings: a list
  without repetition. The preloader's own \<^verbatim>\<open>preloadCache\<close> is a \<^verbatim>\<open>Map\<close>, in insertion
  order. \<open>events\<close> are the \<^verbatim>\<open>pagePreloaded\<close> events dispatched (their \<^verbatim>\<open>href\<close>).
\<close>

record preloader =
  the_router :: router
  config :: preloader_config
  preloadQueue :: "preload_task list"
  preloadingInProgress :: "string list"
  own_preloadCache :: "(string \<times> cache_info) list"
  events :: "string list"

definition set_add :: "'a list \<Rightarrow> 'a \<Rightarrow> 'a list" where
  "set_add xs x = (if x \<in> set xs then xs else xs @ [x])"

definition map_set :: "('k \<times> 'v) list \<Rightarrow> 'k \<Rightarrow> 'v \<Rightarrow> ('k \<times> 'v) list" where
  "map_set m k v =
     (if k \<in> fst ` set m then map (\<lambda>kv. if fst kv = k then (k, v) else kv) m else m @ [(k, v)])"

definition map_delete :: "('k \<times> 'v) list \<Rightarrow> 'k \<Rightarrow> ('k \<times> 'v) list" where
  "map_delete m k = filter (\<lambda>kv. fst kv \<noteq> k) m"

definition type_error :: js_error where
  "type_error = \<lparr>err_name = ''TypeError'', err_message = ''linkElement is undefined''\<rparr>"

text \<open>
  \<^verbatim>\<open>shouldPreload(href, linkElement)\<close>. The href is \<open>None\<close> for \<^verbatim>\<open>null\<close>; the link
  element is \<open>None\<close> when the caller passes no second argument, and then
  \<^verbatim>\<open>linkElement.hasAttribute\<close> raises a \<^verbatim>\<open>TypeError\<close>. \<open>origin\<close> is
  \<^verbatim>\<open>window.location.origin\<close>.
\<close>

definition shouldPreload ::
  "string \<Rightarrow> preloader \<Rightarrow> string option \<Rightarrow> element option \<Rightarrow> js_error + bool" where
  "shouldPreload origin p href linkElement =
     (case href of
        None \<Rightarrow> Inr False
      | Some h \<Rightarrow>
          if h = [] then Inr False
          else if js_includes h ''://'' \<and> \<not> startsWith h origin then Inr False
          else if startsWith h ''#'' \<or> startsWith h ''mailto:'' \<or> startsWith h ''tel:''
          then Inr False
          else if cache (the_router p) h \<noteq> None \<or> preloadCache (the_router p) h \<noteq> None
          then Inr False
          else if h \<in> set (preloadingInProgress p) then Inr False
          else (case linkElement of
                  None \<Rightarrow> Inl type_error
                | Some el \<Rightarrow>
                    if hasAttribute el ''data-no-preload'' then Inr False
                    else if hasAttribute el ''download'' then Inr False
                    else Inr True))"

text \<open>
  \<^verbatim>\<open>preloadPage(href, priority, source)\<close> up to its \<^verbatim>\<open>await fetch(...)\<close>. It calls
  \<^verbatim>\<open>this.shouldPreload(href)\<close> with one argument. The call ends by returning without
  a request, by putting the request in the queue, by starting the fetch, or by rejecting
  with the error that \<^verbatim>\<open>shouldPreload\<close> raised (the call is outside the \<^verbatim>\<open>try\<close>).
\<close>

datatype preload_end = NotEligible | Enqueued | FetchStarted

text \<open>
  The statements of \<^verbatim>\<open>preloadPage\<close> between the eligibility check and the \<^verbatim>\<open>try\<close>
  block: the check of the concurrency limit, with the request put in the queue or the
  href added to the set of preloads in progress.
\<close>

definition preloadPage_limit :: "preloader \<Rightarrow> string \<Rightarrow> int \<Rightarrow> string \<Rightarrow> preload_end \<times> preloader" where
  "preloadPage_limit p h priority source =
     (if length (preloadingInProgress p) \<ge> maxConcurrentPreloads (config p)
      then (Enqueued,
            p\<lparr>preloadQueue := preloadQueue p @
                [\<lparr>task_href = h, task_priority = priority, task_source = source\<rparr>]\<rparr>)
      else (FetchStarted, p\<lparr>preloadingInProgress := set_add (preloadingInProgress p) h\<rparr>))"

definition preloadPage_call ::
  "string \<Rightarrow> preloader \<Rightarrow> string option \<Rightarrow> int \<Rightarrow> string \<Rightarrow> (js_error + preload_end) \<times> preloader" where
  "preloadPage_call origin p href priority source =
     (case shouldPreload origin p href None of
        Inl error \<Rightarrow> (Inl error, p)
      | Inr False \<Rightarrow> (Inr NotEligible, p)
      | Inr True \<Rightarrow>
          (case href of
             None \<Rightarrow> (Inr NotEligible, p)
           | Some h \<Rightarrow>
               (Inr (fst (preloadPage_limit p h priority source)),
                snd (preloadPage_limit p h priority source))))"



text \<open>\<^verbatim>\<open>preloadNow(href)\<close>, as far as it runs at the call.\<close>

definition preloadNow :: "string \<Rightarrow> preloader \<Rightarrow> string option \<Rightarrow> (js_error + preload_end) \<times> preloader" where
  "preloadNow origin p href = preloadPage_call origin p href 1 ''manual''"

text \<open>The callback that \<^verbatim>\<open>cleanupCache\<close> runs every 60 seconds.\<close>

definition evict :: "preloader \<Rightarrow> string \<Rightarrow> preloader" where
  "evict p href =
     p\<lparr>own_preloadCache := map_delete (own_preloadCache p) href,
       the_router := (the_router p)\<lparr>preloadCache := (preloadCache (the_router p))(href := None)\<rparr>\<rparr>"

definition cleanupCache_tick :: "preloader \<Rightarrow> preloader" where
  "cleanupCache_tick p =
     (if length (own_preloadCache p) \<le> maxCacheSize (config p) then p
      else
        let entries = sort_key (\<lambda>kv. info_timestamp (snd kv)) (own_preloadCache p);
            toRemove = take (length entries - maxCacheSize (config p)) entries
        in fold (\<lambda>kv q. evict q (fst kv)) toRemove p)"




section \<open>ComponentPersistence: capture and restore\<close>

text \<open>
  A descendant of a persistent region: an HTML element of a document that is not in
  quirks mode. The descendants of a region are listed in document order; \<open>ancestors\<close>
  holds the positions in that list of the descendants that contain the node, which is
  all of the tree that the queries below need. \<open>localName\<close> is
  \<^verbatim>\<open>tagName.toLowerCase()\<close>. \<open>className\<close> is the value of the \<^verbatim>\<open>class\<close> attribute as it
  is written (empty without one) and \<open>classList\<close> the token list that the browser
  derives from it; \<open>attributes\<close> holds the remaining attributes (\<^verbatim>\<open>id\<close>, \<^verbatim>\<open>class\<close> and
  \<^verbatim>\<open>style\<close> have fields of their own). \<open>cssText\<close> is \<^verbatim>\<open>style.cssText\<close>, the inline
  style as the browser serialises it, which is what it is again after being assigned to
  itself. For a form control, \<open>field_value\<close> is its
  \<^verbatim>\<open>value\<close> property and \<open>listed\<close> says whether \<^verbatim>\<open>new FormData(form)\<close> lists it for
  the forms that contain it (it is enabled, checked if it can be, and so on). Controls
  that contribute several entries or a file, forms inside forms and controls tied to a
  form from outside it by a \<^verbatim>\<open>form\<close> attribute are outside the model.
\<close>

record node = element +
  className :: string
  localName :: string
  node_id :: string
  cssText :: string
  ancestors :: "nat list"
  field_value :: string
  listed :: bool

record region =
  scrollTop :: int
  scrollLeft :: int
  descendants :: "node list"

text \<open>
  The selectors that the class builds or uses: \<^verbatim>\<open>#id\<close>, the bare tag, the tag followed
  by a dot and the class names joined by dots (\<^verbatim>\<open>tag.class1.class2\<close>, and \<^verbatim>\<open>tag.\<close> for
  no class name), \<^verbatim>\<open>[attr]\<close> and \<^verbatim>\<open>[attr="value"]\<close>. The code concatenates ids, class
  names and field names into selector strings. A name that is not a CSS identifier makes
  the string either no selector at all, for which \<^verbatim>\<open>querySelector\<close> raises a
  \<^verbatim>\<open>SyntaxError\<close>, or a selector for something else (an id \<^verbatim>\<open>a.b\<close> gives \<^verbatim>\<open>#a.b\<close>). In
  the same way a quote or a line break in a field name ends the string inside
  \<^verbatim>\<open>[name="..."]\<close>, and a backslash starts an escape, so that the selector is valid but
  asks for another name. The model raises the \<^verbatim>\<open>SyntaxError\<close> in all these cases: what
  is proved below of a restore without error is proved of names that stand for
  themselves in a selector.
\<close>

datatype selector =
    IdSel string
  | TagSel string
  | TagClassSel string "string list"
  | HasAttr string
  | AttrEq string string

definition letter :: "char \<Rightarrow> bool" where
  "letter c = (c \<in> set ''abcdefghijklmnopqrstuvwxyzABCDEFGHIJKLMNOPQRSTUVWXYZ'')"

definition digit :: "char \<Rightarrow> bool" where
  "digit c = (c \<in> set ''0123456789'')"

definition ident_start :: "char \<Rightarrow> bool" where
  "ident_start c = (letter c \<or> c = CHR ''_'' \<or> (of_char c :: nat) \<ge> 128)"

definition ident_char :: "char \<Rightarrow> bool" where
  "ident_char c = (ident_start c \<or> digit c \<or> c = CHR ''-'')"

fun css_identifier :: "string \<Rightarrow> bool" where
  "css_identifier [] = False"
| "css_identifier [c] = ident_start c"
| "css_identifier (c # d # cs) =
     ((ident_start c \<or> (c = CHR ''-'' \<and> (ident_start d \<or> d = CHR ''-'')))
      \<and> list_all ident_char (d # cs))"

definition quotable :: "string \<Rightarrow> bool" where
  "quotable s = list_all (\<lambda>c. c \<notin> set [CHR 0x22, CHR 0x5C, CHR 0x0A, CHR 0x0C, CHR 0x0D]) s"

definition well_formed :: "selector \<Rightarrow> bool" where
  "well_formed sel =
     (case sel of
        IdSel i \<Rightarrow> css_identifier i
      | TagSel t \<Rightarrow> css_identifier t
      | TagClassSel t cs \<Rightarrow> css_identifier t \<and> cs \<noteq> [] \<and> list_all css_identifier cs
      | HasAttr a \<Rightarrow> css_identifier a
      | AttrEq a v \<Rightarrow> css_identifier a \<and> quotable v)"

definition matches :: "node \<Rightarrow> selector \<Rightarrow> bool" where
  "matches n sel =
     (case sel of
        IdSel i \<Rightarrow> node_id n = i
      | TagSel t \<Rightarrow> localName n = t
      | TagClassSel t cs \<Rightarrow> localName n = t \<and> list_all (\<lambda>c. c \<in> set (classList n)) cs
      | HasAttr a \<Rightarrow> hasAttribute n a
      | AttrEq a v \<Rightarrow> getAttribute n a = Some v)"

definition syntax_error :: js_error where
  "syntax_error = \<lparr>err_name = ''SyntaxError'', err_message = ''not a valid selector''\<rparr>"

fun first_index :: "('a \<Rightarrow> bool) \<Rightarrow> 'a list \<Rightarrow> nat option" where
  "first_index P [] = None"
| "first_index P (x # xs) = (if P x then Some 0 else map_option Suc (first_index P xs))"

text \<open>
  \<^verbatim>\<open>scope.querySelector(selector)\<close>: the position of the first descendant of the scope, in
  document order, that matches. The scope is the region itself (\<open>None\<close>) or one of its
  descendants.
\<close>

definition in_scope :: "nat option \<Rightarrow> node \<Rightarrow> bool" where
  "in_scope scope n = (case scope of None \<Rightarrow> True | Some j \<Rightarrow> j \<in> set (ancestors n))"

definition querySelector :: "node list \<Rightarrow> nat option \<Rightarrow> selector \<Rightarrow> js_error + nat option" where
  "querySelector ds scope sel =
     (if well_formed sel then Inr (first_index (\<lambda>n. in_scope scope n \<and> matches n sel) ds)
      else Inl syntax_error)"

text \<open>\<^verbatim>\<open>generateComponentId(selector)\<close>; \<open>now\<close> is \<^verbatim>\<open>Date.now()\<close>.\<close>

definition alphanumeric :: "char \<Rightarrow> bool" where
  "alphanumeric c = (letter c \<or> digit c)"

definition generateComponentId :: "nat \<Rightarrow> string \<Rightarrow> string" where
  "generateComponentId now sel =
     ''component_'' @ map (\<lambda>c. if alphanumeric c then c else CHR ''_'') sel @ ''_'' @ decimal now"

text \<open>
  \<^verbatim>\<open>getElementSelector(element)\<close>. The test is on the \<^verbatim>\<open>class\<close> attribute as written: an
  element with \<^verbatim>\<open>class=" "\<close> has a truthy \<^verbatim>\<open>className\<close> and no class name, and gets the
  selector \<^verbatim>\<open>tag.\<close>, which is not well formed.
\<close>

definition getElementSelector :: "node \<Rightarrow> selector" where
  "getElementSelector n =
     (if node_id n \<noteq> [] then IdSel (node_id n)
      else if className n \<noteq> [] then TagClassSel (localName n) (classList n)
      else TagSel (localName n))"

definition getElementAttributes :: "node \<Rightarrow> (string \<times> string) list" where
  "getElementAttributes n =
     filter (\<lambda>kv. startsWith (fst kv) ''data-'' \<or> fst kv = ''aria-current'') (attributes n)"

record active_info =
  ai_selector :: selector
  ai_classes :: "string list"
  ai_attributes :: "(string \<times> string) list"

record toggle_info =
  ti_classes :: "string list"
  ti_attributes :: "(string \<times> string) list"
  ti_style :: string

text \<open>
  The snapshot. \<^verbatim>\<open>formData\<close> and \<^verbatim>\<open>customData\<close> are objects used as dictionaries:
  assigning to a key that is there replaces its value in place, and assigning an object
  to the key \<^verbatim>\<open>__proto__\<close> adds no entry. (JavaScript enumerates keys that look like array
  indices first; here every key is enumerated in insertion order. Such a key is no CSS
  identifier, so that the lookup by id raises for it in either order, and the fields of
  one form are written to different elements, in any order with the same result.)
\<close>

record component_state =
  scrollPosition :: "int \<times> int"
  activeElements :: "active_info list"
  formData :: "(string \<times> (string \<times> string) list) list"
  customData :: "(string \<times> toggle_info) list"

text \<open>The three \<^verbatim>\<open>querySelectorAll\<close> calls of \<^verbatim>\<open>captureComponentState\<close>.\<close>

definition is_active :: "node \<Rightarrow> bool" where
  "is_active n =
     (''active'' \<in> set (classList n)
      \<or> (''nav-link'' \<in> set (classList n) \<and> ''active'' \<in> set (classList n))
      \<or> getAttribute n ''aria-current'' = Some ''page'')"

definition is_form :: "node \<Rightarrow> bool" where
  "is_form n = (localName n = ''form'')"

definition is_toggle :: "node \<Rightarrow> bool" where
  "is_toggle n =
     (hasAttribute n ''data-toggle'' \<or> ''collapsed'' \<in> set (classList n)
      \<or> ''expanded'' \<in> set (classList n))"

text \<open>
  \<^verbatim>\<open>Object.fromEntries(new FormData(form).entries())\<close> for the form at position \<open>i\<close>: the
  listed controls inside the form that have a name, a later entry replacing the value
  of an earlier one with the same name.
\<close>

definition form_entries :: "node list \<Rightarrow> nat \<Rightarrow> (string \<times> string) list" where
  "form_entries ds i =
     concat (map (\<lambda>n. case getAttribute n ''name'' of
                         Some name \<Rightarrow>
                           if i \<in> set (ancestors n) \<and> listed n \<and> name \<noteq> []
                           then [(name, field_value n)] else []
                       | None \<Rightarrow> []) ds)"

definition fromEntries :: "('k \<times> 'v) list \<Rightarrow> ('k \<times> 'v) list" where
  "fromEntries es = fold (\<lambda>kv m. map_set m (fst kv) (snd kv)) es []"

definition assign :: "(string \<times> 'v) list \<Rightarrow> string \<Rightarrow> 'v \<Rightarrow> (string \<times> 'v) list" where
  "assign obj key v = (if key = ''__proto__'' then obj else map_set obj key v)"

text \<open>
  \<^verbatim>\<open>form.id || this.generateComponentId('form')\<close> and the same for a toggle element, where
  \<^verbatim>\<open>id\<close> is the property of the element itself. A form exposes its controls as
  properties under their names and ids, before its own properties: in a form with a
  control named \<^verbatim>\<open>id\<close>, \<^verbatim>\<open>form.id\<close> is that control. \<open>plain_names\<close> below says that no
  element of the region bears the name of a property that the class uses.
\<close>

definition form_key :: "nat \<Rightarrow> node \<Rightarrow> string" where
  "form_key now n = (if node_id n \<noteq> [] then node_id n else generateComponentId now ''form'')"

definition toggle_key :: "nat \<Rightarrow> node \<Rightarrow> string" where
  "toggle_key now n = (if node_id n \<noteq> [] then node_id n else generateComponentId now ''toggle'')"

text \<open>
  \<^verbatim>\<open>captureComponentState(element)\<close>. \<open>now\<close> is \<^verbatim>\<open>Date.now()\<close>, the same in every call of
  \<^verbatim>\<open>generateComponentId\<close> during one capture.
\<close>

definition captureComponentState :: "nat \<Rightarrow> region \<Rightarrow> component_state" where
  "captureComponentState now r =
     (let ds = descendants r;
          positions = [0..<length ds]
      in \<lparr>scrollPosition = (scrollTop r, scrollLeft r),
          activeElements =
            map (\<lambda>link. \<lparr>ai_selector = getElementSelector link, ai_classes = classList link,
                         ai_attributes = getElementAttributes link\<rparr>)
              (filter is_active ds),
          formData =
            fold (\<lambda>i m. assign m (form_key now (ds ! i)) (fromEntries (form_entries ds i)))
              (filter (\<lambda>i. is_form (ds ! i)) positions) [],
          customData =
            fold (\<lambda>toggle m. assign m (toggle_key now toggle)
                    \<lparr>ti_classes = classList toggle, ti_attributes = getElementAttributes toggle,
                     ti_style = cssText toggle\<rparr>)
              (filter is_toggle ds) []\<rparr>)"

text \<open>
  Writing \<^verbatim>\<open>className\<close> sets the \<^verbatim>\<open>class\<close> attribute to the string, and the class list
  becomes the tokens of the string: split at ASCII whitespace, each token once, in order
  of first occurrence.
\<close>

definition is_space :: "char \<Rightarrow> bool" where
  "is_space c = (c \<in> set [CHR 0x20, CHR 0x09, CHR 0x0A, CHR 0x0C, CHR 0x0D])"

fun split_tokens :: "string \<Rightarrow> string \<Rightarrow> string list" where
  "split_tokens cur [] = (if cur = [] then [] else [cur])"
| "split_tokens cur (c # cs) =
     (if is_space c then (if cur = [] then split_tokens [] cs else cur # split_tokens [] cs)
      else split_tokens (cur @ [c]) cs)"

definition tokens :: "string \<Rightarrow> string list" where
  "tokens s = rev (remdups (rev (split_tokens [] s)))"

fun join_with_space :: "string list \<Rightarrow> string" where
  "join_with_space [] = []"
| "join_with_space [w] = w"
| "join_with_space (w # v # ws) = w @ CHR 0x20 # join_with_space (v # ws)"

definition set_className :: "node \<Rightarrow> string \<Rightarrow> node" where
  "set_className n s = n\<lparr>className := s, classList := tokens s\<rparr>"

text \<open>
  \<^verbatim>\<open>setAttribute(name, value)\<close> for a name that \<^verbatim>\<open>setAttribute\<close> accepts and leaves in the
  case it has, as the names that \<^verbatim>\<open>getElementAttributes\<close> collects from a parsed document
  are.
\<close>

definition setAttribute :: "node \<Rightarrow> string \<Rightarrow> string \<Rightarrow> node" where
  "setAttribute n name v = n\<lparr>attributes := map_set (attributes n) name v\<rparr>"

text \<open>\<^verbatim>\<open>forEach\<close> with a callback that may raise: the first error ends the loop.\<close>

fun forEach :: "('a \<Rightarrow> 's \<Rightarrow> js_error + 's) \<Rightarrow> 'a list \<Rightarrow> 's \<Rightarrow> js_error + 's" where
  "forEach f [] s = Inr s"
| "forEach f (x # xs) s = (case f x s of Inl e \<Rightarrow> Inl e | Inr s' \<Rightarrow> forEach f xs s')"

text \<open>The class list and the whitelisted attributes written back to one element.\<close>

definition write_marks :: "node \<Rightarrow> string list \<Rightarrow> (string \<times> string) list \<Rightarrow> node" where
  "write_marks n cs as =
     fold (\<lambda>kv m. setAttribute m (fst kv) (snd kv)) as (set_className n (join_with_space cs))"

definition restore_active :: "active_info \<Rightarrow> node list \<Rightarrow> js_error + node list" where
  "restore_active activeInfo ds =
     (case querySelector ds None (ai_selector activeInfo) of
        Inl e \<Rightarrow> Inl e
      | Inr None \<Rightarrow> Inr ds
      | Inr (Some i) \<Rightarrow>
          Inr (ds[i := write_marks (ds ! i) (ai_classes activeInfo) (ai_attributes activeInfo)]))"

text \<open>\<^verbatim>\<open>element.querySelector(first) || element.querySelector(second)\<close>.\<close>

definition query_or :: "node list \<Rightarrow> selector \<Rightarrow> selector \<Rightarrow> js_error + nat option" where
  "query_or ds first second =
     (case querySelector ds None first of
        Inl e \<Rightarrow> Inl e
      | Inr (Some i) \<Rightarrow> Inr (Some i)
      | Inr None \<Rightarrow> querySelector ds None second)"

definition restore_field :: "nat \<Rightarrow> string \<times> string \<Rightarrow> node list \<Rightarrow> js_error + node list" where
  "restore_field form entry ds =
     (case querySelector ds (Some form) (AttrEq ''name'' (fst entry)) of
        Inl e \<Rightarrow> Inl e
      | Inr None \<Rightarrow> Inr ds
      | Inr (Some k) \<Rightarrow> Inr (ds[k := (ds ! k)\<lparr>field_value := snd entry\<rparr>]))"

definition restore_form ::
  "string \<times> (string \<times> string) list \<Rightarrow> node list \<Rightarrow> js_error + node list" where
  "restore_form entry ds =
     (case query_or ds (IdSel (fst entry)) (TagSel ''form'') of
        Inl e \<Rightarrow> Inl e
      | Inr None \<Rightarrow> Inr ds
      | Inr (Some form) \<Rightarrow> forEach (restore_field form) (snd entry) ds)"

definition restore_toggle :: "string \<times> toggle_info \<Rightarrow> node list \<Rightarrow> js_error + node list" where
  "restore_toggle entry ds =
     (case query_or ds (IdSel (fst entry)) (HasAttr ''data-toggle'') of
        Inl e \<Rightarrow> Inl e
      | Inr None \<Rightarrow> Inr ds
      | Inr (Some i) \<Rightarrow>
          (let t = write_marks (ds ! i) (ti_classes (snd entry)) (ti_attributes (snd entry));
               t' = (if ti_style (snd entry) \<noteq> [] then t\<lparr>cssText := ti_style (snd entry)\<rparr> else t)
           in Inr (ds[i := t'])))"

text \<open>
  \<^verbatim>\<open>restoreComponentState(element, state)\<close>: the region afterwards, or the error that a
  \<^verbatim>\<open>querySelector\<close> raised on the way.
\<close>

definition restoreComponentState :: "region \<Rightarrow> component_state \<Rightarrow> js_error + region" where
  "restoreComponentState r state =
     (let r1 = r\<lparr>scrollTop := fst (scrollPosition state), scrollLeft := snd (scrollPosition state)\<rparr>
      in case forEach restore_active (activeElements state) (descendants r1) of
           Inl e \<Rightarrow> Inl e
         | Inr ds1 \<Rightarrow>
             (case forEach restore_form (formData state) ds1 of
                Inl e \<Rightarrow> Inl e
              | Inr ds2 \<Rightarrow>
                  (case forEach restore_toggle (customData state) ds2 of
                     Inl e \<Rightarrow> Inl e
                   | Inr ds3 \<Rightarrow> Inr (r1\<lparr>descendants := ds3\<rparr>))))"


definition dom_invariants :: "node list \<Rightarrow> bool" where
  "dom_invariants ds =
     list_all (\<lambda>n. classList n = tokens (className n) \<and> distinct (map fst (attributes n))) ds"



text \<open>
  What a restore may do to an element whose own state it writes back: nothing, or the
  \<^verbatim>\<open>class\<close> attribute rewritten as the class names of the element separated by single
  spaces.
\<close>

definition class_rewritten :: "node \<Rightarrow> node" where
  "class_rewritten n = n\<lparr>className := join_with_space (classList n)\<rparr>"

definition restored_from :: "node \<Rightarrow> node \<Rightarrow> bool" where
  "restored_from n n' = (n' = n \<or> n' = class_rewritten n)"




section \<open>Concrete scenarios\<close>

text \<open>Fragments, networks and a router state used to run the definitions above.\<close>

definition settings_page :: page_fragment where
  "settings_page = \<lparr>pf_content = ''<h1>Settings</h1>'', pf_title = ''Settings'',
                     pf_scripts = [], pf_styles = [], pf_content_scripts = [],
                     pf_content_links = []\<rparr>"

definition net_load_failed :: "payload network" where
  "net_load_failed url retryCount =
     Rejected \<lparr>err_name = ''TypeError'', err_message = ''Load failed''\<rparr>"

definition net_flaky :: "payload network" where
  "net_flaky url retryCount =
     (if retryCount = 0 then Responded 503 ''Service Unavailable'' (Inr Falsy)
      else if retryCount = 1
      then Rejected \<lparr>err_name = ''TypeError'', err_message = ''Failed to fetch''\<rparr>
      else if retryCount = 2 then Responded 500 ''Internal Server Error'' (Inr Falsy)
      else Responded 502 ''Bad Gateway'' (Inr Falsy))"

definition net_500_then_200 :: "payload network" where
  "net_500_then_200 url retryCount =
     (if retryCount = 0 then Responded 500 ''Internal Server Error'' (Inr Falsy)
      else Responded 200 ''OK'' (Inr (Fragment settings_page)))"

definition net_404 :: "payload network" where
  "net_404 url retryCount = Responded 404 ''Not Found'' (Inr Falsy)"

definition net_500_then_timeout :: "payload network" where
  "net_500_then_timeout url retryCount =
     (if retryCount = 0 then Responded 500 ''Internal Server Error'' (Inr Falsy)
      else DeadlineElapsed)"

definition dashboard_page :: page_fragment where
  "dashboard_page = \<lparr>pf_content = ''<h1>Dashboard</h1>'', pf_title = ''Dashboard'',
                      pf_scripts = [], pf_styles = [], pf_content_scripts = [],
                      pf_content_links = []\<rparr>"

definition router_at_dashboard :: router where
  "router_at_dashboard =
     \<lparr>currentRoute = Some ''/dashboard'',
      cache = [''/dashboard'' \<mapsto> Fragment dashboard_page],
      preloadCache = Map.empty,
      isNavigating = False,
      lastFailedPath = None,
      has_contentContainer = True,
      content_innerHTML = ''<h1>Dashboard</h1>'',
      document_title = ''Dashboard'',
      head_scripts = [],
      head_styles = [],
      content_scripts = [],
      content_links = [],
      other_scripts = [],
      other_links = [],
      script_passes = 1,
      highlighted_path = Some ''/dashboard'',
      highlight_raises = (\<lambda>path. False),
      history_calls = [ReplaceState \<lparr>he_path = ''/dashboard'', he_timestamp = 0,
                                      he_title = ''Dashboard''\<rparr> ''Dashboard'' ''/dashboard''],
      has_componentPersistence = True,
      persistence_calls = [AfterNavigationIn50ms],
      has_loadingIndicator = True,
      loadingIndicator_hidden = True,
      has_loadingOverlay = True,
      loadingOverlay_hidden = True,
      loadingTimeout_pending = False,
      has_errorContainer = True,
      has_errorMessage = True,
      errorContainer_hidden = True,
      errorMessage_text = [],
      autoHide_timers = 0,
      has_retryButton = True,
      retryButton_onclick = False,
      has_dismissButton = True,
      dismissButton_onclick = False\<rparr>"

text \<open>
  The same router after a hover has preloaded \<^verbatim>\<open>/logs\<close>, and the state in which its
  navigation to \<^verbatim>\<open>/settings\<close>, called at time 0, waits for the fetch.
\<close>

definition logs_page :: page_fragment where
  "logs_page = \<lparr>pf_content = ''<h1>Logs</h1>'', pf_title = ''Logs'',
                 pf_scripts = [], pf_styles = [], pf_content_scripts = [],
                 pf_content_links = []\<rparr>"

definition router_logs_preloaded :: router where
  "router_logs_preloaded =
     router_at_dashboard\<lparr>preloadCache := [''/logs'' \<mapsto> Fragment logs_page]\<rparr>"

definition settings_in_flight :: router where
  "settings_in_flight = fst (navigate_call router_logs_preloaded ''/settings'' True False 0)"

definition panel_origin :: string where
  "panel_origin = ''https://panel.example.com''"

definition absolute_servers_link :: element where
  "absolute_servers_link =
     \<lparr>attributes = [(''href'', ''https://panel.example.com/admin/servers'')],
      classList = [''nav-link'']\<rparr>"

definition servers_link :: element where
  "servers_link = \<lparr>attributes = [(''href'', ''/admin/servers'')], classList = [''nav-link'']\<rparr>"

definition fresh_preloader :: preloader where
  "fresh_preloader =
     \<lparr>the_router = router_at_dashboard, config = default_config, preloadQueue = [],
      preloadingInProgress = [], own_preloadCache = [], events = []\<rparr>"




text \<open>Twenty-five preloads stored one after the other, at the times 1 to 25.\<close>

definition preloaded_at :: "nat \<Rightarrow> string \<times> cache_info" where
  "preloaded_at i =
     (''/page/'' @ decimal i,
      \<lparr>info_data = Falsy, info_timestamp = int i, info_priority = 3, info_source = ''hover''\<rparr>)"

definition full_preloader :: preloader where
  "full_preloader =
     fresh_preloader
       \<lparr>own_preloadCache := map preloaded_at [1..<26],
        the_router := router_at_dashboard
          \<lparr>preloadCache := map_of (map (\<lambda>kv. (fst kv, info_data (snd kv))) (map preloaded_at [1..<26]))\<rparr>\<rparr>"

text \<open>
  A sidebar with two active links and nothing else: the first carries one class more
  than the second, neither has an id.
\<close>

definition plain_node :: node where
  "plain_node =
     \<lparr>attributes = [], classList = [], className = [], localName = ''div'', node_id = [],
      cssText = [], ancestors = [], field_value = [], listed = False\<rparr>"







text \<open>A link whose \<^verbatim>\<open>class\<close> attribute holds a space and no class name.\<close>

definition blank_class_link :: region where
  "blank_class_link =
     \<lparr>scrollTop = 0, scrollLeft = 0,
      descendants =
        [plain_node\<lparr>localName := ''a'',
                    attributes := [(''href'', ''/admin/servers''), (''aria-current'', ''page'')],
                    className := '' ''\<rparr>]\<rparr>"

section \<open>Retry policy of fetchPageData\<close>

lemma try_block_Retry: "try_block out k = Retry \<Longrightarrow> k < maxRetries"
  by (auto simp: try_block_def catch_block_def split: fetch_outcome.splits sum.splits if_splits)

lemma fetchPageData_length: "length (snd (fetchPageData net path k)) \<le> maxRetries - k"
proof (induction net path k rule: fetchPageData.induct)
  case (1 net path k)
  show ?case
  proof (cases "try_block (net (endpoint path) k) k")
    case Retry
    from try_block_Retry[OF Retry] have "k < maxRetries" .
    with 1[OF Retry] Retry show ?thesis
      by (subst fetchPageData.simps) (simp add: split_def Let_def)
  qed (simp_all add: fetchPageData.simps)
qed

lemma fetchPageData_Retry:
  "try_block (net (endpoint path) k) k = Retry \<Longrightarrow>
   fetchPageData net path k =
     (fst (fetchPageData net path (k + 1)), retryDelay k # snd (fetchPageData net path (k + 1)))"
  by (subst fetchPageData.simps) (simp add: split_def Let_def)

lemma fetchPageData_Throw:
  "try_block (net (endpoint path) k) k = Throw e \<Longrightarrow> fetchPageData net path k = (Inl e, [])"
  by (subst fetchPageData.simps) simp

lemma fetchPageData_Return:
  "try_block (net (endpoint path) k) k = Return d \<Longrightarrow> fetchPageData net path k = (Inr d, [])"
  by (subst fetchPageData.simps) simp

lemma js_includes_Nil [simp]: "js_includes s [] = True"
  by (induction s) auto

lemma startsWith_append_notin:
  "c \<notin> set pre \<Longrightarrow> pre \<noteq> [] \<Longrightarrow> \<not> startsWith (pre @ t) (c # cs)"
  by (cases pre) auto

lemma js_includes_skip_prefix:
  "c \<notin> set pre \<Longrightarrow> js_includes (pre @ t) (c # cs) = js_includes t (c # cs)"
proof (induction pre)
  case Nil
  then show ?case by simp
next
  case (Cons a pre)
  then show ?case by auto
qed

lemma digit_char_cases: "d < 10 \<Longrightarrow> digit_char d \<in> set ''0123456789''"
proof -
  assume "d < 10"
  then have "d < length ''0123456789''"
    by simp
  from nth_mem[OF this] show ?thesis
    by (simp only: digit_char_def)
qed

lemma set_decimal: "set (decimal n) \<subseteq> set ''0123456789''"
proof (induction n rule: decimal.induct)
  case (1 n)
  show ?case
  proof (cases "n < 10")
    case True
    then show ?thesis using digit_char_cases[of n] by (subst decimal.simps) simp
  next
    case False
    have "n mod 10 < 10" by simp
    from digit_char_cases[OF this] 1[OF False] False show ?thesis
      by (subst decimal.simps) simp
  qed
qed

lemma http_error_message_includes:
  assumes "c \<in> set ''fetchnetwork''"
  shows "js_includes (err_message (http_error s t)) (c # cs) = js_includes t (c # cs)"
proof -
  have "c \<notin> set (''HTTP '' @ decimal s @ '': '')"
    using assms set_decimal[of s] by auto
  from js_includes_skip_prefix[OF this, of t cs] show ?thesis
    by (simp add: http_error_def)
qed

lemma looks_like_network_error_http:
  "looks_like_network_error (http_error s t) = (js_includes t ''fetch'' \<or> js_includes t ''network'')"
  unfolding looks_like_network_error_def
  by (simp add: http_error_message_includes)

lemma fetch_404: "fetchPageData net_404 path 0 = (Inl (http_error 404 ''Not Found''), [])"
proof -
  have "\<not> looks_like_network_error (http_error 404 ''Not Found'')"
    by (simp add: looks_like_network_error_http)
  then have "try_block (net_404 (endpoint path) 0) 0 = Throw (http_error 404 ''Not Found'')"
    by (simp add: try_block_def catch_block_def response_ok_def net_404_def http_error_def)
  from fetchPageData_Throw[of net_404 path 0, OF this] show ?thesis .
qed

text \<open>
  Claim C1, as the code has it. A rejection of \<^verbatim>\<open>fetch\<close> is recognised as a network
  failure by its message only: Safari's \<^verbatim>\<open>TypeError: Load failed\<close> contains neither
  \<^verbatim>\<open>fetch\<close> nor \<^verbatim>\<open>network\<close>, and the first attempt that fails with it is not retried.
\<close>

theorem fetchPageData_load_failed_not_retried:
  "fetchPageData net_load_failed ''/settings'' 0 =
     (Inl \<lparr>err_name = ''TypeError'', err_message = ''Load failed''\<rparr>, [])"
  by (simp add: fetchPageData.simps try_block_def catch_block_def net_load_failed_def
      looks_like_network_error_def maxRetries_def)

text \<open>
  Claim C1, amended. At retry count \<open>k\<close> (0 for the first attempt) \<^verbatim>\<open>fetchPageData\<close>
  \<^item> retries a response with status at least 500 while \<open>k < 3\<close>, after waiting
    \<open>1000 * 2 ^ k\<close> milliseconds;
  \<^item> retries a rejection of \<^verbatim>\<open>fetch\<close> that is not an abort and whose message contains
    \<^verbatim>\<open>fetch\<close> or \<^verbatim>\<open>network\<close> while \<open>k < 3\<close>, after the same wait;
  \<^item> raises the failure of the attempt as the terminal error once \<open>k\<close> has reached 3,
    and at once for a rejection whose message contains neither word;
  \<^item> raises at once, with no retry, for a 4xx response whose status text contains
    neither word;
  \<^item> waits at most three times in all;
  \<^item> given a 500 and then a 200 with a payload, returns that payload after exactly one
    retry, which waited 1000 milliseconds.
\<close>

theorem fetchPageData_retry_policy:
  fixes net :: "'a network"
  shows
    "(net (endpoint path) k1 = Responded s1 t1 b1 \<and> 500 \<le> s1 \<and> k1 < 3 \<longrightarrow>
        fetchPageData net path k1 =
          (fst (fetchPageData net path (k1 + 1)),
           1000 * 2 ^ k1 # snd (fetchPageData net path (k1 + 1))))
     \<and> (net (endpoint path) k2 = Rejected e2 \<and> err_name e2 \<noteq> ''AbortError''
          \<and> (js_includes (err_message e2) ''fetch'' \<or> js_includes (err_message e2) ''network'')
          \<and> k2 < 3 \<longrightarrow>
        fetchPageData net path k2 =
          (fst (fetchPageData net path (k2 + 1)),
           1000 * 2 ^ k2 # snd (fetchPageData net path (k2 + 1))))
     \<and> (net (endpoint path) k3 = Responded s3 t3 b3 \<and> 500 \<le> s3 \<and> 3 \<le> k3 \<longrightarrow>
        fetchPageData net path k3 = (Inl (http_error s3 t3), []))
     \<and> (net (endpoint path) k4 = Rejected e4 \<and> err_name e4 \<noteq> ''AbortError''
          \<and> (3 \<le> k4 \<or> \<not> (js_includes (err_message e4) ''fetch''
                              \<or> js_includes (err_message e4) ''network'')) \<longrightarrow>
        fetchPageData net path k4 = (Inl e4, []))
     \<and> (net (endpoint path) k5 = Responded s5 t5 b5 \<and> 400 \<le> s5 \<and> s5 < 500
          \<and> \<not> js_includes t5 ''fetch'' \<and> \<not> js_includes t5 ''network'' \<longrightarrow>
        fetchPageData net path k5 = (Inl (http_error s5 t5), []))
     \<and> length (snd (fetchPageData net path 0)) \<le> 3
     \<and> (net (endpoint path) 0 = Responded 500 t6 b6
          \<and> net (endpoint path) 1 = Responded 200 t7 (Inr d7) \<longrightarrow>
        fetchPageData net path 0 = (Inr d7, [1000]))"
proof (intro conjI impI)
  assume "net (endpoint path) k1 = Responded s1 t1 b1 \<and> 500 \<le> s1 \<and> k1 < 3"
  then have "try_block (net (endpoint path) k1) k1 = Retry"
    by (simp add: try_block_def response_ok_def maxRetries_def)
  from fetchPageData_Retry[of net path k1, OF this] show
    "fetchPageData net path k1 =
       (fst (fetchPageData net path (k1 + 1)), 1000 * 2 ^ k1 # snd (fetchPageData net path (k1 + 1)))"
    by (simp add: retryDelay_def)
next
  assume "net (endpoint path) k2 = Rejected e2 \<and> err_name e2 \<noteq> ''AbortError''
          \<and> (js_includes (err_message e2) ''fetch'' \<or> js_includes (err_message e2) ''network'')
          \<and> k2 < 3"
  then have "try_block (net (endpoint path) k2) k2 = Retry"
    by (simp add: try_block_def catch_block_def looks_like_network_error_def maxRetries_def)
  from fetchPageData_Retry[of net path k2, OF this] show
    "fetchPageData net path k2 =
       (fst (fetchPageData net path (k2 + 1)), 1000 * 2 ^ k2 # snd (fetchPageData net path (k2 + 1)))"
    by (simp add: retryDelay_def)
next
  assume "net (endpoint path) k3 = Responded s3 t3 b3 \<and> 500 \<le> s3 \<and> 3 \<le> k3"
  then have "try_block (net (endpoint path) k3) k3 = Throw (http_error s3 t3)"
    by (simp add: try_block_def catch_block_def response_ok_def maxRetries_def http_error_def)
  from fetchPageData_Throw[of net path k3, OF this] show "fetchPageData net path k3 = (Inl (http_error s3 t3), [])" .
next
  assume "net (endpoint path) k4 = Rejected e4 \<and> err_name e4 \<noteq> ''AbortError''
          \<and> (3 \<le> k4 \<or> \<not> (js_includes (err_message e4) ''fetch''
                              \<or> js_includes (err_message e4) ''network''))"
  then have "try_block (net (endpoint path) k4) k4 = Throw e4"
    by (auto simp: try_block_def catch_block_def maxRetries_def looks_like_network_error_def)
  from fetchPageData_Throw[of net path k4, OF this] show "fetchPageData net path k4 = (Inl e4, [])" .
next
  assume a: "net (endpoint path) k5 = Responded s5 t5 b5 \<and> 400 \<le> s5 \<and> s5 < 500
          \<and> \<not> js_includes t5 ''fetch'' \<and> \<not> js_includes t5 ''network''"
  then have "\<not> looks_like_network_error (http_error s5 t5)"
    by (simp add: looks_like_network_error_http)
  moreover have "err_name (http_error s5 t5) \<noteq> ''AbortError''"
    by (simp add: http_error_def)
  ultimately have "try_block (net (endpoint path) k5) k5 = Throw (http_error s5 t5)"
    using a by (simp add: try_block_def catch_block_def response_ok_def)
  from fetchPageData_Throw[of net path k5, OF this] show "fetchPageData net path k5 = (Inl (http_error s5 t5), [])" .
next
  show "length (snd (fetchPageData net path 0)) \<le> 3"
    using fetchPageData_length[of net path 0] by (simp add: maxRetries_def)
next
  assume a: "net (endpoint path) 0 = Responded 500 t6 b6
          \<and> net (endpoint path) 1 = Responded 200 t7 (Inr d7)"
  then have "try_block (net (endpoint path) 0) 0 = Retry"
    by (simp add: try_block_def response_ok_def maxRetries_def)
  from fetchPageData_Retry[of net path 0, OF this] have
    r: "fetchPageData net path 0 = (fst (fetchPageData net path 1), 1000 # snd (fetchPageData net path 1))"
    by (simp add: retryDelay_def)
  from a have "try_block (net (endpoint path) 1) 1 = Return d7"
    by (simp add: try_block_def response_ok_def)
  from fetchPageData_Return[of net path 1, OF this] r show "fetchPageData net path 0 = (Inr d7, [1000])"
    by simp
qed

theorem fetchPageData_retry_policy_witness:
  "fetchPageData net_flaky ''/settings'' 0 =
     (Inl (http_error 502 ''Bad Gateway''), [1000, 2000, 4000])
   \<and> fetchPageData net_404 ''/settings'' 0 = (Inl (http_error 404 ''Not Found''), [])
   \<and> fetchPageData net_load_failed ''/settings'' 3 =
       (Inl \<lparr>err_name = ''TypeError'', err_message = ''Load failed''\<rparr>, [])
   \<and> fetchPageData net_500_then_200 ''/settings'' 0 = (Inr (Fragment settings_page), [1000])"
proof -
  let ?p = "''/settings''"
  let ?failed = "\<lparr>err_name = ''TypeError'', err_message = ''Failed to fetch''\<rparr>"
  let ?load = "\<lparr>err_name = ''TypeError'', err_message = ''Load failed''\<rparr>"
  have a0: "fetchPageData net_flaky ?p 0 =
      (fst (fetchPageData net_flaky ?p (Suc 0)), 1000 # snd (fetchPageData net_flaky ?p (Suc 0)))"
    using fetchPageData_retry_policy[where net = net_flaky and path = ?p and ?k1.0 = 0
        and ?s1.0 = 503 and ?t1.0 = "''Service Unavailable''" and ?b1.0 = "Inr Falsy"]
    by (simp add: net_flaky_def)
  have a1: "fetchPageData net_flaky ?p (Suc 0) =
      (fst (fetchPageData net_flaky ?p (Suc (Suc 0))), 2000 # snd (fetchPageData net_flaky ?p (Suc (Suc 0))))"
    using fetchPageData_retry_policy[where net = net_flaky and path = ?p and ?k2.0 = "Suc 0"
        and ?e2.0 = ?failed]
    by (simp add: net_flaky_def)
  have a2: "fetchPageData net_flaky ?p (Suc (Suc 0)) =
      (fst (fetchPageData net_flaky ?p (Suc (Suc (Suc 0)))),
       4000 # snd (fetchPageData net_flaky ?p (Suc (Suc (Suc 0)))))"
    using fetchPageData_retry_policy[where net = net_flaky and path = ?p and ?k1.0 = "Suc (Suc 0)"
        and ?s1.0 = 500 and ?t1.0 = "''Internal Server Error''" and ?b1.0 = "Inr Falsy"]
    by (simp add: net_flaky_def)
  have a3: "fetchPageData net_flaky ?p (Suc (Suc (Suc 0))) = (Inl (http_error 502 ''Bad Gateway''), [])"
    using fetchPageData_retry_policy[where net = net_flaky and path = ?p and ?k3.0 = "Suc (Suc (Suc 0))"
        and ?s3.0 = 502 and ?t3.0 = "''Bad Gateway''" and ?b3.0 = "Inr Falsy"]
    by (simp add: net_flaky_def)
  have b: "fetchPageData net_404 ?p 0 = (Inl (http_error 404 ''Not Found''), [])"
    using fetchPageData_retry_policy[where net = net_404 and path = ?p and ?k5.0 = 0
        and ?s5.0 = 404 and ?t5.0 = "''Not Found''" and ?b5.0 = "Inr Falsy"]
    by (simp add: net_404_def)
  have c: "fetchPageData net_load_failed ?p 3 = (Inl ?load, [])"
    using fetchPageData_retry_policy[where net = net_load_failed and path = ?p and ?k4.0 = 3
        and ?e4.0 = ?load]
    by (simp add: net_load_failed_def)
  have d: "fetchPageData net_500_then_200 ?p 0 = (Inr (Fragment settings_page), [1000])"
    using fetchPageData_retry_policy[where net = net_500_then_200 and path = ?p
        and ?t6.0 = "''Internal Server Error''" and ?b6.0 = "Inr Falsy" and ?t7.0 = "''OK''"
        and ?d7.0 = "Fragment settings_page"]
    by (simp add: net_500_then_200_def)
  from a0 a1 a2 a3 b c d show ?thesis
    by simp
qed

section \<open>The client-side deadline\<close>

lemma timeout_message_not_http: "err_message timeout_error \<noteq> err_message (http_error s t)"
  by (simp add: timeout_error_def http_error_def)

lemma try_block_Throw_not_timeout:
  assumes "try_block outcome k = Throw e" and "\<not> deadline_or_abort outcome"
  shows "err_message e \<noteq> err_message timeout_error"
proof (cases outcome)
  case (Responded status statusText body)
  show ?thesis
  proof (cases "response_ok status")
    case True
    with assms Responded show ?thesis
      by (auto simp: try_block_def catch_block_def deadline_or_abort_def reports_abort_def
          split: sum.splits if_splits)
  next
    case False
    with assms(1) Responded have "e = http_error status statusText"
      by (auto simp: try_block_def catch_block_def http_error_def split: if_splits)
    then show ?thesis
      using timeout_message_not_http[of status statusText] by simp
  qed
next
  case (Rejected e')
  with assms show ?thesis
    by (auto simp: try_block_def catch_block_def deadline_or_abort_def reports_abort_def
        split: if_splits)
next
  case DeadlineElapsed
  with assms(2) show ?thesis
    by (simp add: deadline_or_abort_def)
qed

lemma fetchPageData_timeout_only_on_abort:
  "(\<And>j. k \<le> j \<Longrightarrow> \<not> deadline_or_abort (net (endpoint path) j)) \<Longrightarrow>
   fst (fetchPageData net path k) = Inl e \<Longrightarrow> err_message e \<noteq> err_message timeout_error"
proof (induction net path k rule: fetchPageData.induct)
  case (1 net path k)
  show ?case
  proof (cases "try_block (net (endpoint path) k) k")
    case (Return d)
    from fetchPageData_Return[of net path k, OF Return] "1.prems"(2) show ?thesis
      by simp
  next
    case (Throw e')
    from fetchPageData_Throw[of net path k, OF Throw] "1.prems"(2) have "e' = e"
      by simp
    with try_block_Throw_not_timeout[OF Throw] "1.prems"(1)[of k] show ?thesis
      by simp
  next
    case Retry
    from fetchPageData_Retry[of net path k, OF Retry] "1.prems"(2)
    have "fst (fetchPageData net path (k + 1)) = Inl e"
      by simp
    moreover have "\<And>j. k + 1 \<le> j \<Longrightarrow> \<not> deadline_or_abort (net (endpoint path) j)"
      using "1.prems"(1) by simp
    ultimately show ?thesis
      using "1.IH"[OF Retry] by blast
  qed
qed

text \<open>
  Claim C6. When the 10 second deadline of an attempt elapses, whatever its retry count,
  \<^verbatim>\<open>fetchPageData\<close> rejects at once with the timeout error and waits for no retry. The
  timeout error is kept for that case: its message is not the message of any HTTP
  failure, and when no attempt from the given retry count on ends in an abort (or in an
  error of the browser that itself carries the timeout text), whatever error
  \<^verbatim>\<open>fetchPageData\<close> rejects with has another message.
\<close>

theorem fetchPageData_timeout_is_terminal:
  "(net (endpoint path) k = DeadlineElapsed \<longrightarrow>
      fetchPageData net path k = (Inl timeout_error, []))
   \<and> err_message timeout_error = ''Request timeout - please check your connection''
   \<and> err_message timeout_error \<noteq> err_message (http_error s t)
   \<and> ((\<forall>j. k' \<le> j \<longrightarrow> \<not> deadline_or_abort (net' (endpoint path') j)) \<longrightarrow>
        (\<forall>e. fst (fetchPageData net' path' k') = Inl e \<longrightarrow>
             err_message e \<noteq> err_message timeout_error))"
proof (intro conjI impI allI)
  assume "net (endpoint path) k = DeadlineElapsed"
  then have "try_block (net (endpoint path) k) k = Throw timeout_error"
    by (simp add: try_block_def catch_block_def abort_error_def)
  from fetchPageData_Throw[of net path k, OF this]
  show "fetchPageData net path k = (Inl timeout_error, [])" .
next
  show "err_message timeout_error = ''Request timeout - please check your connection''"
    by (simp add: timeout_error_def)
next
  show "err_message timeout_error \<noteq> err_message (http_error s t)"
    by (rule timeout_message_not_http)
next
  fix e
  assume "\<forall>j. k' \<le> j \<longrightarrow> \<not> deadline_or_abort (net' (endpoint path') j)"
    and "fst (fetchPageData net' path' k') = Inl e"
  then show "err_message e \<noteq> err_message timeout_error"
    using fetchPageData_timeout_only_on_abort[of k' net' path' e] by blast
qed

theorem fetchPageData_timeout_is_terminal_witness:
  "net_500_then_timeout (endpoint ''/settings'') 1 = DeadlineElapsed
   \<and> fetchPageData net_500_then_timeout ''/settings'' 1 = (Inl timeout_error, [])
   \<and> fetchPageData net_500_then_timeout ''/settings'' 0 = (Inl timeout_error, [1000])
   \<and> fetchPageData net_404 ''/settings'' 0 = (Inl (http_error 404 ''Not Found''), [])
   \<and> err_message (http_error 404 ''Not Found'') \<noteq> err_message timeout_error"
proof -
  have h: "net_500_then_timeout (endpoint ''/settings'') 1 = DeadlineElapsed"
    by (simp add: net_500_then_timeout_def)
  have first: "try_block (net_500_then_timeout (endpoint ''/settings'') 0) 0 = Retry"
    by (simp add: net_500_then_timeout_def try_block_def response_ok_def maxRetries_def)
  have no_abort: "\<forall>j. 0 \<le> j \<longrightarrow> \<not> deadline_or_abort (net_404 (endpoint ''/settings'') j)"
    by (simp add: net_404_def deadline_or_abort_def)
  note t = fetchPageData_timeout_is_terminal[of net_500_then_timeout "''/settings''" 1 404
      "''Not Found''" 0 net_404 "''/settings''"]
  from t h have a: "fetchPageData net_500_then_timeout ''/settings'' 1 = (Inl timeout_error, [])"
    by blast
  from fetchPageData_Retry[of net_500_then_timeout "''/settings''" 0, OF first] a
  have b: "fetchPageData net_500_then_timeout ''/settings'' 0 = (Inl timeout_error, [1000])"
    by (simp add: retryDelay_def)
  from t no_abort fetch_404[of "''/settings''"]
  have c: "err_message (http_error 404 ''Not Found'') \<noteq> err_message timeout_error"
    by (metis fst_conv)
  from h a b c fetch_404[of "''/settings''"] show ?thesis
    by blast
qed

section \<open>Navigation\<close>

lemma before_try_fields:
  "cache (before_try r i) = cache r" "preloadCache (before_try r i) = preloadCache r"
  "currentRoute (before_try r i) = currentRoute r" "history_calls (before_try r i) = history_calls r"
  "document_title (before_try r i) = document_title r"
  "content_innerHTML (before_try r i) = content_innerHTML r"
  "head_scripts (before_try r i) = head_scripts r" "head_styles (before_try r i) = head_styles r"
  "script_passes (before_try r i) = script_passes r"
  "highlighted_path (before_try r i) = highlighted_path r"
  "isNavigating (before_try r i)"
  "has_loadingIndicator (before_try r i) = has_loadingIndicator r"
  "has_loadingOverlay (before_try r i) = has_loadingOverlay r"
  "has_errorContainer (before_try r i) = has_errorContainer r"
  "has_errorMessage (before_try r i) = has_errorMessage r"
  "has_retryButton (before_try r i) = has_retryButton r"
  "has_dismissButton (before_try r i) = has_dismissButton r"
  "lastFailedPath (before_try r i) = lastFailedPath r"
  by (simp_all add: before_try_def showLoadingState_def Let_def)

lemma cached_pageData_before_try:
  "cached_pageData (before_try r i) path = cached_pageData r path"
  by (simp add: cached_pageData_def before_try_fields split: option.splits)

lemma failed_fields:
  "cache (finally_block (showErrorState r e)) = cache r"
  "preloadCache (finally_block (showErrorState r e)) = preloadCache r"
  "currentRoute (finally_block (showErrorState r e)) = currentRoute r"
  "history_calls (finally_block (showErrorState r e)) = history_calls r"
  "document_title (finally_block (showErrorState r e)) = document_title r"
  "content_innerHTML (finally_block (showErrorState r e)) = content_innerHTML r"
  "head_scripts (finally_block (showErrorState r e)) = head_scripts r"
  "head_styles (finally_block (showErrorState r e)) = head_styles r"
  "script_passes (finally_block (showErrorState r e)) = script_passes r"
  "highlighted_path (finally_block (showErrorState r e)) = highlighted_path r"
  "\<not> isNavigating (finally_block (showErrorState r e))"
  "\<not> loadingTimeout_pending (finally_block (showErrorState r e))"
  "has_loadingIndicator r \<Longrightarrow> loadingIndicator_hidden (finally_block (showErrorState r e))"
  "has_errorContainer r \<Longrightarrow> has_errorMessage r \<Longrightarrow>
     \<not> errorContainer_hidden (finally_block (showErrorState r e))"
  "lastFailedPath (finally_block (showErrorState r e)) = currentRoute r"
  "has_retryButton r \<Longrightarrow> retryButton_onclick (finally_block (showErrorState r e))"
  by (simp_all add: finally_block_def hideLoadingState_def showErrorState_def Let_def)

lemma navigate_failed:
  assumes "\<not> (isNavigating r \<and> \<not> isInitial)" and "cached_pageData r path = None"
    and "fst (fetchPageData net path 0) = Inl error"
  shows "navigate net r path pushState isInitial now =
           finally_block (showErrorState (before_try r isInitial) error)"
  using assms
  by (auto simp: navigate_def navigate_call_def Let_def cached_pageData_before_try
      navigate_resume_def)

lemma router_at_dashboard_misses_settings:
  "\<not> isNavigating router_at_dashboard"
  "cached_pageData router_at_dashboard ''/settings'' = None"
  "currentRoute router_at_dashboard = Some ''/dashboard''"
  "document_title router_at_dashboard = ''Dashboard''"
  "has_retryButton router_at_dashboard"
  by (simp_all add: cached_pageData_def truthy_def router_at_dashboard_def)

lemma router_logs_preloaded_fields:
  "\<not> isNavigating router_logs_preloaded"
  "cached_pageData router_logs_preloaded ''/settings'' = None"
  "currentRoute router_logs_preloaded = Some ''/dashboard''"
  "content_innerHTML router_logs_preloaded = ''<h1>Dashboard</h1>''"
  "cache router_logs_preloaded ''/logs'' = None"
  "preloadCache router_logs_preloaded ''/logs'' = Some (Fragment logs_page)"
  "has_contentContainer router_logs_preloaded"
  "highlight_raises router_logs_preloaded = (\<lambda>path. False)"
  by (simp_all add: cached_pageData_def truthy_def router_logs_preloaded_def
      router_at_dashboard_def)

lemma settings_in_flight_call:
  "navigate_call router_logs_preloaded ''/settings'' True False 0
     = (settings_in_flight, AwaitingFetch)"
proof -
  have "navigate_call router_logs_preloaded ''/settings'' True False 0
      = (before_try router_logs_preloaded False, AwaitingFetch)"
    by (simp add: navigate_call_def Let_def cached_pageData_before_try
        router_logs_preloaded_fields)
  then show ?thesis
    by (simp add: settings_in_flight_def)
qed

lemma settings_in_flight_is: "settings_in_flight = before_try router_logs_preloaded False"
  using settings_in_flight_call
  by (simp add: navigate_call_def Let_def cached_pageData_before_try
      router_logs_preloaded_fields)

lemma settings_in_flight_fields:
  "isNavigating settings_in_flight"
  "currentRoute settings_in_flight = Some ''/dashboard''"
  "content_innerHTML settings_in_flight = ''<h1>Dashboard</h1>''"
  "cache settings_in_flight ''/logs'' = None"
  "preloadCache settings_in_flight ''/logs'' = Some (Fragment logs_page)"
  by (simp_all add: settings_in_flight_is before_try_fields router_logs_preloaded_fields)

lemma cleared_fields:
  "cache (hideLoadingState (r\<lparr>isNavigating := False\<rparr>)) = cache r"
  "preloadCache (hideLoadingState (r\<lparr>isNavigating := False\<rparr>)) = preloadCache r"
  "currentRoute (hideLoadingState (r\<lparr>isNavigating := False\<rparr>)) = currentRoute r"
  "has_contentContainer (hideLoadingState (r\<lparr>isNavigating := False\<rparr>)) = has_contentContainer r"
  "highlight_raises (hideLoadingState (r\<lparr>isNavigating := False\<rparr>)) = highlight_raises r"
  "\<not> isNavigating (hideLoadingState (r\<lparr>isNavigating := False\<rparr>))"
  by (simp_all add: hideLoadingState_def Let_def)

lemma before_try_more_fields:
  "has_contentContainer (before_try r i) = has_contentContainer r"
  "highlight_raises (before_try r i) = highlight_raises r"
  by (simp_all add: before_try_def showLoadingState_def Let_def)

lemma rendered_fields:
  assumes "has_contentContainer r" and "\<not> highlight_raises r path"
  shows "content_innerHTML (finally_block (catch_render
            (render_and_record r path pushState isInitial now pageData))) = pf_content pageData"
    and "cache (finally_block (catch_render
            (render_and_record r path pushState isInitial now pageData)))
          = (cache r)(path \<mapsto> Fragment pageData)"
    and "preloadCache (finally_block (catch_render
            (render_and_record r path pushState isInitial now pageData)))
          = (preloadCache r)(path := None)"
    and "currentRoute (finally_block (catch_render
            (render_and_record r path pushState isInitial now pageData))) = Some path"
  using assms
  by (simp_all add: finally_block_def hideLoadingState_def catch_render_def
      render_and_record_def renderPage_def Let_def)

text \<open>
  Claim C2, as the code has it. While the navigation to \<^verbatim>\<open>/settings\<close> waits for its
  fetch, a \<^verbatim>\<open>popstate\<close> event for \<^verbatim>\<open>/logs\<close> makes \<^verbatim>\<open>handlePopState\<close> clear the in-flight
  flag and call \<^verbatim>\<open>navigate('/logs', false)\<close>. That call, made without the initial-load
  flag while another navigation is in flight, is not a no-op: it replaces the content
  region, moves the fragment from the preload cache to the cache and changes the
  current route.
\<close>

theorem popstate_navigates_while_in_flight:
  "navigate_call router_logs_preloaded ''/settings'' True False 0
     = (settings_in_flight, AwaitingFetch)
   \<and> snd (handlePopState settings_in_flight (Some ''/logs'') ''/logs'' 1) = Some Completed
   \<and> content_innerHTML settings_in_flight = ''<h1>Dashboard</h1>''
   \<and> content_innerHTML (fst (handlePopState settings_in_flight (Some ''/logs'') ''/logs'' 1))
       = ''<h1>Logs</h1>''
   \<and> cache settings_in_flight ''/logs'' = None
   \<and> cache (fst (handlePopState settings_in_flight (Some ''/logs'') ''/logs'' 1)) ''/logs''
       = Some (Fragment logs_page)
   \<and> preloadCache (fst (handlePopState settings_in_flight (Some ''/logs'') ''/logs'' 1)) ''/logs''
       = None
   \<and> currentRoute (fst (handlePopState settings_in_flight (Some ''/logs'') ''/logs'' 1))
       = Some ''/logs''"
proof -
  let ?cleared = "hideLoadingState (settings_in_flight\<lparr>isNavigating := False\<rparr>)"
  let ?shown = "finally_block (catch_render (render_and_record (before_try ?cleared False)
                  ''/logs'' False False 1 logs_page))"
  have hit: "cached_pageData ?cleared ''/logs'' = Some logs_page"
    by (simp add: cached_pageData_def truthy_def cleared_fields settings_in_flight_fields)
  have "navigate_call ?cleared ''/logs'' False False 1 = (?shown, Completed)"
    by (simp add: navigate_call_def Let_def cached_pageData_before_try hit cleared_fields)
  then have pop: "handlePopState settings_in_flight (Some ''/logs'') ''/logs'' 1
      = (?shown, Some Completed)"
    by (simp add: handlePopState_def Let_def settings_in_flight_fields)
  have container: "has_contentContainer (before_try ?cleared False)"
    and quiet: "\<not> highlight_raises (before_try ?cleared False) ''/logs''"
    by (simp_all add: before_try_more_fields cleared_fields settings_in_flight_is
        router_logs_preloaded_fields)
  note shown = rendered_fields[OF container quiet, of False False 1 logs_page]
  have fields:
    "content_innerHTML ?shown = ''<h1>Logs</h1>''"
    "cache ?shown ''/logs'' = Some (Fragment logs_page)"
    "preloadCache ?shown ''/logs'' = None"
    "currentRoute ?shown = Some ''/logs''"
    unfolding shown by (simp_all add: logs_page_def)
  from settings_in_flight_call pop fields settings_in_flight_fields show ?thesis
    by simp
qed

text \<open>
  Claim C2, amended. A call of \<^verbatim>\<open>navigate\<close> that is suspended at its fetch has set the
  in-flight flag. A call without the initial-load flag made while the flag is set
  returns at the guard and leaves the whole state as it is (content region, history,
  both caches). A call with the initial-load flag is never stopped at the guard, and
  neither is the call that \<^verbatim>\<open>handlePopState\<close> makes for a path other than the current
  route, since the handler clears the flag first.
\<close>

theorem navigate_in_flight_is_noop:
  "(navigate_call r path pushState isInitial now = (r', AwaitingFetch) \<longrightarrow> isNavigating r')
   \<and> (isNavigating r' \<longrightarrow>
        navigate_call r' otherPath pushState' False now' = (r', Suppressed)
        \<and> navigate net r' otherPath pushState' False now' = r')
   \<and> snd (navigate_call r' otherPath pushState' True now') \<noteq> Suppressed
   \<and> (otherPath \<noteq> [] \<and> currentRoute r' \<noteq> Some otherPath \<longrightarrow>
        snd (handlePopState r' (Some otherPath) pathname now') \<noteq> None
        \<and> snd (handlePopState r' (Some otherPath) pathname now') \<noteq> Some Suppressed)"
proof (intro conjI impI)
  assume "navigate_call r path pushState isInitial now = (r', AwaitingFetch)"
  then have "r' = before_try r isInitial"
    by (auto simp: navigate_call_def Let_def split: if_splits option.splits)
  then show "isNavigating r'"
    by (simp add: before_try_fields)
next
  assume "isNavigating r'"
  then show "navigate_call r' otherPath pushState' False now' = (r', Suppressed)"
    by (simp add: navigate_call_def)
next
  assume "isNavigating r'"
  then show "navigate net r' otherPath pushState' False now' = r'"
    by (simp add: navigate_def navigate_call_def)
next
  show "snd (navigate_call r' otherPath pushState' True now') \<noteq> Suppressed"
    by (simp add: navigate_call_def Let_def split: option.splits)
next
  assume "otherPath \<noteq> [] \<and> currentRoute r' \<noteq> Some otherPath"
  then show "snd (handlePopState r' (Some otherPath) pathname now') \<noteq> None"
    by (simp add: handlePopState_def Let_def)
next
  assume "otherPath \<noteq> [] \<and> currentRoute r' \<noteq> Some otherPath"
  then show "snd (handlePopState r' (Some otherPath) pathname now') \<noteq> Some Suppressed"
    by (simp add: handlePopState_def Let_def navigate_call_def cleared_fields
        split: option.splits)
qed

theorem navigate_in_flight_is_noop_witness:
  "isNavigating settings_in_flight
   \<and> navigate_call settings_in_flight ''/logs'' True False 1 = (settings_in_flight, Suppressed)
   \<and> navigate net_404 settings_in_flight ''/logs'' True False 1 = settings_in_flight
   \<and> snd (navigate_call settings_in_flight ''/logs'' True True 1) \<noteq> Suppressed
   \<and> snd (handlePopState settings_in_flight (Some ''/logs'') ''/logs'' 1) \<noteq> Some Suppressed"
proof -
  note call = settings_in_flight_call
  have other: "''/logs'' \<noteq> [] \<and> currentRoute settings_in_flight \<noteq> Some ''/logs''"
    by (simp add: settings_in_flight_fields)
  from navigate_in_flight_is_noop[of router_logs_preloaded "''/settings''" True False 0
      settings_in_flight "''/logs''" True 1 net_404 "''/logs''"] call other
  show ?thesis by simp
qed

text \<open>
  Claim C8, on the code. After the navigation from \<^verbatim>\<open>/dashboard\<close> to \<^verbatim>\<open>/settings\<close> has
  failed with a 404, \<^verbatim>\<open>lastFailedPath\<close> holds \<^verbatim>\<open>/dashboard\<close>, the route displayed before,
  and the retry button navigates there, not to \<^verbatim>\<open>/settings\<close>.
\<close>

theorem retry_targets_current_route:
  "lastFailedPath (navigate net_404 router_at_dashboard ''/settings'' True False now)
     = Some ''/dashboard''
   \<and> retryButton_onclick (navigate net_404 router_at_dashboard ''/settings'' True False now)
   \<and> snd (retry_onclick (navigate net_404 router_at_dashboard ''/settings'' True False now))
     = Some ''/dashboard''"
proof -
  have a: "\<not> (isNavigating router_at_dashboard \<and> \<not> False)"
    by (simp add: router_at_dashboard_def)
  have b: "cached_pageData router_at_dashboard ''/settings'' = None"
    by (simp add: cached_pageData_def truthy_def router_at_dashboard_def)
  have c: "fst (fetchPageData net_404 ''/settings'' 0) = Inl (http_error 404 ''Not Found'')"
    by (simp add: fetch_404)
  have d: "currentRoute router_at_dashboard = Some ''/dashboard''"
    "has_retryButton router_at_dashboard"
    by (simp_all add: router_at_dashboard_def)
  show ?thesis
    unfolding navigate_failed[of router_at_dashboard False "''/settings''" net_404, OF a b c]
    by (simp add: failed_fields before_try_fields d retry_onclick_def)
qed

lemma navigate_failed_frame:
  "(finally_block (showErrorState (before_try r isInitial) error))
     \<lparr>isNavigating := False, lastFailedPath := None, persistence_calls := [],
      loadingIndicator_hidden := True, loadingOverlay_hidden := True,
      loadingTimeout_pending := False, errorContainer_hidden := True,
      errorMessage_text := [], autoHide_timers := 0, retryButton_onclick := False,
      dismissButton_onclick := False\<rparr>
   = r\<lparr>isNavigating := False, lastFailedPath := None, persistence_calls := [],
       loadingIndicator_hidden := True, loadingOverlay_hidden := True,
       loadingTimeout_pending := False, errorContainer_hidden := True,
       errorMessage_text := [], autoHide_timers := 0, retryButton_onclick := False,
       dismissButton_onclick := False\<rparr>"
  by (rule router.equality)
    (simp_all add: finally_block_def showErrorState_def before_try_def showLoadingState_def
      hideLoadingState_def Let_def)

lemma persistence_calls_before_try:
  "persistence_calls (before_try r isInitial)
     = persistence_calls r @ (if has_componentPersistence r \<and> \<not> isInitial then [BeforeNavigation] else [])"
  by (simp add: before_try_def showLoadingState_def Let_def)

lemma persistence_calls_failed:
  "persistence_calls (finally_block (showErrorState r error)) = persistence_calls r"
  by (simp add: finally_block_def showErrorState_def hideLoadingState_def Let_def)

lemma navigate_failed_persistence:
  "persistence_calls (finally_block (showErrorState (before_try r isInitial) error))
     = persistence_calls r @ (if has_componentPersistence r \<and> \<not> isInitial then [BeforeNavigation] else [])"
  by (simp only: persistence_calls_failed persistence_calls_before_try)

text \<open>
  Claim C10, as the code has it. The failed navigation from \<^verbatim>\<open>/dashboard\<close> to
  \<^verbatim>\<open>/settings\<close> does more than toggle the loading and error displays and reset the
  flag: \<^verbatim>\<open>showErrorState\<close> assigns \<^verbatim>\<open>lastFailedPath\<close>, which was unset, and before the
  \<^verbatim>\<open>try\<close> block \<^verbatim>\<open>beforeNavigation()\<close> was called on the persistence object.
\<close>

theorem navigate_failure_also_records:
  "lastFailedPath router_at_dashboard = None
   \<and> lastFailedPath (navigate net_404 router_at_dashboard ''/settings'' True False 0) \<noteq> None
   \<and> persistence_calls router_at_dashboard = [AfterNavigationIn50ms]
   \<and> persistence_calls (navigate net_404 router_at_dashboard ''/settings'' True False 0)
       = [AfterNavigationIn50ms, BeforeNavigation]"
proof -
  have a: "\<not> (isNavigating router_at_dashboard \<and> \<not> False)"
    by (simp add: router_at_dashboard_def)
  have c: "fst (fetchPageData net_404 ''/settings'' 0) = Inl (http_error 404 ''Not Found'')"
    by (simp add: fetch_404)
  have d: "lastFailedPath router_at_dashboard = None"
    "persistence_calls router_at_dashboard = [AfterNavigationIn50ms]"
    "has_componentPersistence router_at_dashboard"
    by (simp_all add: router_at_dashboard_def)
  show ?thesis
    unfolding navigate_failed[of router_at_dashboard False "''/settings''" net_404,
        OF a router_at_dashboard_misses_settings(2) c]
    by (simp add: failed_fields before_try_fields navigate_failed_persistence d
        router_at_dashboard_misses_settings)
qed

text \<open>
  Claim C10, amended. A call of \<^verbatim>\<open>navigate\<close> without the initial-load flag that gets
  past the guard, finds the path in neither cache and whose \<^verbatim>\<open>fetchPageData\<close> rejects,
  returns with both caches, the current route, the history, the document title, the
  content region, the head and the highlighted link as they were; the in-flight flag is
  reset, the loading indicator hidden and the error container shown. Apart from the
  flag and the loading and error displays, the call assigns \<^verbatim>\<open>lastFailedPath\<close> and, when
  there is a persistence object, calls its \<^verbatim>\<open>beforeNavigation()\<close>; nothing else of the
  router or the document changes.
\<close>

theorem navigate_failure_keeps_navigation_state:
  assumes "\<not> isInitial" and "\<not> isNavigating r" and "cached_pageData r path = None"
    and "fst (fetchPageData net path 0) = Inl error"
    and "r' = navigate net r path pushState isInitial now"
  shows "cache r' = cache r \<and> preloadCache r' = preloadCache r
       \<and> currentRoute r' = currentRoute r \<and> history_calls r' = history_calls r
       \<and> document_title r' = document_title r \<and> content_innerHTML r' = content_innerHTML r
       \<and> head_scripts r' = head_scripts r \<and> head_styles r' = head_styles r
       \<and> script_passes r' = script_passes r \<and> highlighted_path r' = highlighted_path r
       \<and> \<not> isNavigating r' \<and> \<not> loadingTimeout_pending r'
       \<and> (has_loadingIndicator r \<longrightarrow> loadingIndicator_hidden r')
       \<and> (has_errorContainer r \<and> has_errorMessage r \<longrightarrow> \<not> errorContainer_hidden r')
       \<and> persistence_calls r'
           = persistence_calls r @ (if has_componentPersistence r then [BeforeNavigation] else [])
       \<and> r'\<lparr>isNavigating := False, lastFailedPath := None, persistence_calls := [],
              loadingIndicator_hidden := True, loadingOverlay_hidden := True,
              loadingTimeout_pending := False, errorContainer_hidden := True,
              errorMessage_text := [], autoHide_timers := 0, retryButton_onclick := False,
              dismissButton_onclick := False\<rparr>
         = r\<lparr>isNavigating := False, lastFailedPath := None, persistence_calls := [],
              loadingIndicator_hidden := True, loadingOverlay_hidden := True,
              loadingTimeout_pending := False, errorContainer_hidden := True,
              errorMessage_text := [], autoHide_timers := 0, retryButton_onclick := False,
              dismissButton_onclick := False\<rparr>"
proof -
  have eq: "r' = finally_block (showErrorState (before_try r isInitial) error)"
    using assms navigate_failed[of r isInitial path net error pushState now] by simp
  have fields: "cache r' = cache r \<and> preloadCache r' = preloadCache r
       \<and> currentRoute r' = currentRoute r \<and> history_calls r' = history_calls r
       \<and> document_title r' = document_title r \<and> content_innerHTML r' = content_innerHTML r
       \<and> head_scripts r' = head_scripts r \<and> head_styles r' = head_styles r
       \<and> script_passes r' = script_passes r \<and> highlighted_path r' = highlighted_path r
       \<and> \<not> isNavigating r' \<and> \<not> loadingTimeout_pending r'
       \<and> (has_loadingIndicator r \<longrightarrow> loadingIndicator_hidden r')
       \<and> (has_errorContainer r \<and> has_errorMessage r \<longrightarrow> \<not> errorContainer_hidden r')
       \<and> persistence_calls r'
           = persistence_calls r @ (if has_componentPersistence r then [BeforeNavigation] else [])"
    unfolding eq using assms(1)
    by (simp add: failed_fields before_try_fields navigate_failed_persistence)
  have frame: "r'\<lparr>isNavigating := False, lastFailedPath := None, persistence_calls := [],
              loadingIndicator_hidden := True, loadingOverlay_hidden := True,
              loadingTimeout_pending := False, errorContainer_hidden := True,
              errorMessage_text := [], autoHide_timers := 0, retryButton_onclick := False,
              dismissButton_onclick := False\<rparr>
         = r\<lparr>isNavigating := False, lastFailedPath := None, persistence_calls := [],
              loadingIndicator_hidden := True, loadingOverlay_hidden := True,
              loadingTimeout_pending := False, errorContainer_hidden := True,
              errorMessage_text := [], autoHide_timers := 0, retryButton_onclick := False,
              dismissButton_onclick := False\<rparr>"
    unfolding eq by (rule navigate_failed_frame)
  from fields frame show ?thesis
    by blast
qed

theorem navigate_failure_keeps_navigation_state_witness:
  "cache (navigate net_404 router_at_dashboard ''/settings'' True False 0)
     = cache router_at_dashboard
   \<and> currentRoute (navigate net_404 router_at_dashboard ''/settings'' True False 0)
     = Some ''/dashboard''
   \<and> history_calls (navigate net_404 router_at_dashboard ''/settings'' True False 0)
     = history_calls router_at_dashboard
   \<and> document_title (navigate net_404 router_at_dashboard ''/settings'' True False 0)
     = ''Dashboard''
   \<and> \<not> isNavigating (navigate net_404 router_at_dashboard ''/settings'' True False 0)"
proof -
  have a: "\<not> isNavigating router_at_dashboard"
    by (simp add: router_at_dashboard_def)
  have b: "cached_pageData router_at_dashboard ''/settings'' = None"
    by (simp add: cached_pageData_def truthy_def router_at_dashboard_def)
  have c: "fst (fetchPageData net_404 ''/settings'' 0) = Inl (http_error 404 ''Not Found'')"
    by (simp add: fetch_404)
  have d: "currentRoute router_at_dashboard = Some ''/dashboard''"
    "document_title router_at_dashboard = ''Dashboard''"
    by (simp_all add: router_at_dashboard_def)
  note t = navigate_failure_keeps_navigation_state[of False router_at_dashboard "''/settings''"
      net_404 "http_error 404 ''Not Found''" _ True 0, OF _ a b c refl]
  from t have "cache (navigate net_404 router_at_dashboard ''/settings'' True False 0)
        = cache router_at_dashboard"
    and "currentRoute (navigate net_404 router_at_dashboard ''/settings'' True False 0)
        = currentRoute router_at_dashboard"
    and "history_calls (navigate net_404 router_at_dashboard ''/settings'' True False 0)
        = history_calls router_at_dashboard"
    and "document_title (navigate net_404 router_at_dashboard ''/settings'' True False 0)
        = document_title router_at_dashboard"
    and "\<not> isNavigating (navigate net_404 router_at_dashboard ''/settings'' True False 0)"
    by blast+
  with d show ?thesis by simp
qed

section \<open>Click interception\<close>

text \<open>
  Claim C3, as the code has it. The listener leaves every href that contains \<^verbatim>\<open>://\<close> to
  the browser, whatever its origin: a click on a link to an absolute URL of the panel's
  own origin is not intercepted.
\<close>

theorem same_origin_absolute_link_not_intercepted:
  "startsWith ''https://panel.example.com/admin/servers'' panel_origin
   \<and> getAttribute absolute_servers_link ''href'' = Some ''https://panel.example.com/admin/servers''
   \<and> click_listener (Some absolute_servers_link) = []"
  by (simp add: click_listener_def getAttribute_def hasAttribute_def target_property_def
      absolute_servers_link_def panel_origin_def)

text \<open>
  Claim C3, amended. The listener suppresses the default action and calls \<^verbatim>\<open>navigate\<close>
  once, with the href, exactly when the click is inside a link whose href is not empty,
  does not start with \<^verbatim>\<open>#\<close>, \<^verbatim>\<open>mailto:\<close> or \<^verbatim>\<open>tel:\<close>, does not contain \<^verbatim>\<open>://\<close>
  (an absolute URL of any origin), and which has no \<^verbatim>\<open>download\<close> attribute, no target
  \<^verbatim>\<open>_blank\<close>, no class \<^verbatim>\<open>external-link\<close> and no \<^verbatim>\<open>data-no-spa\<close> attribute. In every
  other case it does nothing and the browser navigates.
\<close>

theorem click_listener_intercepts_iff:
  "(click_listener closest_link = [PreventDefault, Navigate href]) =
     (\<exists>link. closest_link = Some link \<and> getAttribute link ''href'' = Some href
        \<and> href \<noteq> [] \<and> \<not> startsWith href ''#'' \<and> \<not> startsWith href ''mailto:''
        \<and> \<not> startsWith href ''tel:'' \<and> \<not> js_includes href ''://''
        \<and> \<not> hasAttribute link ''download'' \<and> target_property link \<noteq> ''_blank''
        \<and> ''external-link'' \<notin> set (classList link) \<and> \<not> hasAttribute link ''data-no-spa'')
   \<and> (click_listener closest_link = []
        \<or> (\<exists>h. click_listener closest_link = [PreventDefault, Navigate h]))"
  by (auto simp: click_listener_def split: option.splits)

theorem click_listener_intercepts_iff_witness:
  "click_listener (Some servers_link) = [PreventDefault, Navigate ''/admin/servers'']"
  using click_listener_intercepts_iff[of "Some servers_link" "''/admin/servers''"]
  by (simp add: servers_link_def getAttribute_def hasAttribute_def target_property_def)

section \<open>The preloader's requests\<close>



text \<open>
  Claim C9, on the code. \<^verbatim>\<open>preloadNow('/admin/servers')\<close> on a preloader with nothing
  cached for that path and nothing in progress rejects with a \<^verbatim>\<open>TypeError\<close> and leaves
  the preloader as it was: no fetch is issued.
\<close>

theorem preloadNow_raises_TypeError:
  "preloadNow panel_origin fresh_preloader (Some ''/admin/servers'')
     = (Inl type_error, fresh_preloader)"
  by (simp add: preloadNow_def preloadPage_call_def shouldPreload_def fresh_preloader_def
      router_at_dashboard_def)

lemma fold_evict_rest:
  "cache (the_router (fold (\<lambda>kv q. evict q (fst kv)) rs p)) = cache (the_router p)"
  "config (fold (\<lambda>kv q. evict q (fst kv)) rs p) = config p"
  "preloadQueue (fold (\<lambda>kv q. evict q (fst kv)) rs p) = preloadQueue p"
  "preloadingInProgress (fold (\<lambda>kv q. evict q (fst kv)) rs p) = preloadingInProgress p"
  by (induction rs arbitrary: p) (auto simp: evict_def)
















section \<open>Eviction from the preload caches\<close>

lemma fold_evict_own:
  "own_preloadCache (fold (\<lambda>kv q. evict q (fst kv)) rs p)
     = filter (\<lambda>kv. fst kv \<notin> fst ` set rs) (own_preloadCache p)"
  by (induction rs arbitrary: p) (auto simp: evict_def map_delete_def intro: filter_cong)

lemma fold_evict_router:
  "preloadCache (the_router (fold (\<lambda>kv q. evict q (fst kv)) rs p)) href
     = (if href \<in> fst ` set rs then None else preloadCache (the_router p) href)"
  by (induction rs arbitrary: p) (auto simp: evict_def)

lemma distinct_keys_mem:
  assumes "distinct (map fst xs)" and "a \<in> set xs" and "b \<in> set xs" and "fst a = fst b"
  shows "a = b"
  using assms by (metis distinct_map inj_onD)

lemma filter_keys_eq_drop:
  assumes d: "distinct (map fst xs)" and es: "mset es = mset xs"
  shows "filter (\<lambda>kv. fst kv \<notin> fst ` set (take n es)) xs
       = filter (\<lambda>kv. kv \<in> set (drop n es)) xs"
proof (rule filter_cong[OF refl])
  fix kv assume kv: "kv \<in> set xs"
  have set_eq: "set es = set xs" using es by (metis set_mset_mset)
  have des: "distinct es" using d es by (metis distinct_map mset_eq_imp_distinct_iff)
  have split: "set es = set (take n es) \<union> set (drop n es)"
    by (metis append_take_drop_id set_append)
  have disj: "set (take n es) \<inter> set (drop n es) = {}"
    using des by (metis append_take_drop_id distinct_append)
  show "(fst kv \<notin> fst ` set (take n es)) = (kv \<in> set (drop n es))"
  proof
    assume "fst kv \<notin> fst ` set (take n es)"
    then have "kv \<notin> set (take n es)" by auto
    with kv set_eq split show "kv \<in> set (drop n es)" by auto
  next
    assume a: "kv \<in> set (drop n es)"
    show "fst kv \<notin> fst ` set (take n es)"
    proof
      assume "fst kv \<in> fst ` set (take n es)"
      then obtain kv' where kv': "kv' \<in> set (take n es)" "fst kv' = fst kv" by auto
      then have "kv' \<in> set xs" using set_eq split by auto
      from distinct_keys_mem[OF d this kv kv'(2)] kv'(1) a disj show False by auto
    qed
  qed
qed

lemma length_filter_drop:
  assumes d: "distinct xs" and es: "mset es = mset xs"
  shows "length (filter (\<lambda>kv. kv \<in> set (drop n es)) xs) = length xs - n"
proof -
  have des: "distinct es" using d es by (metis mset_eq_imp_distinct_iff)
  have "set (drop n es) \<subseteq> set xs"
    using es by (metis set_drop_subset set_mset_mset)
  then have "{x. x \<in> set (drop n es)} \<inter> set xs = set (drop n es)" by auto
  then have "length (filter (\<lambda>kv. kv \<in> set (drop n es)) xs) = card (set (drop n es))"
    using distinct_length_filter[OF d, of "\<lambda>kv. kv \<in> set (drop n es)"] by simp
  also have "\<dots> = length (drop n es)"
    using des by (simp add: distinct_card)
  also have "\<dots> = length xs - n"
    using es by (metis length_drop size_mset)
  finally show ?thesis .
qed

lemma filter_mem_drop_self:
  assumes "distinct xs"
  shows "filter (\<lambda>x. x \<in> set (drop n xs)) xs = drop n xs"
proof -
  have disj: "set (take n xs) \<inter> set (drop n xs) = {}"
    using assms by (metis append_take_drop_id distinct_append)
  have a: "filter (\<lambda>x. x \<in> set (drop n xs)) (take n xs) = []"
    using disj by (auto simp: filter_empty_conv)
  have b: "filter (\<lambda>x. x \<in> set (drop n xs)) (drop n xs) = drop n xs"
    by simp
  have "filter (\<lambda>x. x \<in> set (drop n xs)) xs
      = filter (\<lambda>x. x \<in> set (drop n xs)) (take n xs @ drop n xs)"
    by simp
  also have "\<dots> = drop n xs"
    unfolding filter_append a b by simp
  finally show ?thesis .
qed

lemma sorted_take_le_drop:
  assumes "sorted (map f es)" and "a \<in> set (take n es)" and "b \<in> set (drop n es)"
  shows "f a \<le> f b"
proof -
  have "sorted (map f (take n es) @ map f (drop n es))"
    using assms(1) by (metis append_take_drop_id map_append)
  then show ?thesis
    using assms(2,3) by (auto simp: sorted_append)
qed

text \<open>
  Claim C5. When the callback of \<^verbatim>\<open>cleanupCache\<close> runs on a preloader whose own cache
  holds more entries than \<^verbatim>\<open>maxCacheSize\<close> (20 unless reconfigured), then afterwards
  \<^item> that cache holds exactly \<^verbatim>\<open>maxCacheSize\<close> of its former entries;
  \<^item> no removed entry has a later timestamp than an entry that was kept;
  \<^item> the router's preload cache has lost exactly the removed paths, and the router's
    confirmed cache is as it was;
  \<^item> if the entries were stored with increasing timestamps, the entries kept are the
    last \<^verbatim>\<open>maxCacheSize\<close> stored: of 25, the 5 oldest go and the 20 newest stay.
  The keys of a \<^verbatim>\<open>Map\<close> are distinct.
\<close>

theorem cleanupCache_tick_evicts_oldest:
  assumes "distinct (map fst (own_preloadCache p))"
    and "length (own_preloadCache p) > maxCacheSize (config p)"
    and "p' = cleanupCache_tick p"
  shows "length (own_preloadCache p') = maxCacheSize (config p)
       \<and> set (own_preloadCache p') \<subseteq> set (own_preloadCache p)
       \<and> (\<forall>old \<in> set (own_preloadCache p) - set (own_preloadCache p').
            \<forall>kept \<in> set (own_preloadCache p').
              info_timestamp (snd old) \<le> info_timestamp (snd kept))
       \<and> (\<forall>href. preloadCache (the_router p') href =
            (if href \<in> fst ` (set (own_preloadCache p) - set (own_preloadCache p')) then None
             else preloadCache (the_router p) href))
       \<and> cache (the_router p') = cache (the_router p)
       \<and> (sorted (map (\<lambda>kv. info_timestamp (snd kv)) (own_preloadCache p)) \<longrightarrow>
            own_preloadCache p'
              = drop (length (own_preloadCache p) - maxCacheSize (config p)) (own_preloadCache p))"
proof -
  let ?f = "\<lambda>kv :: string \<times> cache_info. info_timestamp (snd kv)"
  let ?xs = "own_preloadCache p"
  let ?es = "sort_key ?f ?xs"
  let ?n = "length ?xs - maxCacheSize (config p)"
  let ?ys = "filter (\<lambda>kv. kv \<in> set (drop ?n ?es)) ?xs"
  have ms: "mset ?es = mset ?xs" by simp
  have dx: "distinct ?xs" using assms(1) by (simp add: distinct_map)
  have des: "distinct ?es" using dx by simp
  have p': "p' = fold (\<lambda>kv q. evict q (fst kv)) (take ?n ?es) p"
    using assms(2,3) by (simp add: cleanupCache_tick_def Let_def)
  have own: "own_preloadCache p' = ?ys"
    unfolding p' fold_evict_own using filter_keys_eq_drop[OF assms(1) ms, of ?n] by simp
  have len: "length ?ys = maxCacheSize (config p)"
    using length_filter_drop[OF dx ms, of ?n] assms(2) by simp
  have set_ys: "set ?ys = set (drop ?n ?es)"
    using set_drop_subset[of ?n ?es] by auto
  have split: "set ?xs = set (take ?n ?es) \<union> set (drop ?n ?es)"
    by (metis append_take_drop_id set_append set_sort)
  have disj: "set (take ?n ?es) \<inter> set (drop ?n ?es) = {}"
    using des by (metis append_take_drop_id distinct_append)
  have removed: "set ?xs - set ?ys = set (take ?n ?es)"
    using split disj set_ys by auto
  have ts: "\<forall>old \<in> set ?xs - set ?ys. \<forall>kept \<in> set ?ys. ?f old \<le> ?f kept"
  proof (intro ballI)
    fix old kept
    assume "old \<in> set ?xs - set ?ys" and "kept \<in> set ?ys"
    then have "old \<in> set (take ?n ?es)" and "kept \<in> set (drop ?n ?es)"
      using removed set_ys by auto
    with sorted_sort_key[of ?f ?xs] show "?f old \<le> ?f kept"
      by (rule sorted_take_le_drop)
  qed
  have router: "\<forall>href. preloadCache (the_router p') href =
      (if href \<in> fst ` (set ?xs - set ?ys) then None else preloadCache (the_router p) href)"
    using removed unfolding p' fold_evict_router by simp
  have srt: "sorted (map ?f ?xs) \<longrightarrow> ?ys = drop ?n ?xs"
  proof
    assume "sorted (map ?f ?xs)"
    then have "?es = ?xs" by (rule sort_key_id_if_sorted)
    then show "?ys = drop ?n ?xs"
      using filter_mem_drop_self[OF dx, of ?n] by simp
  qed
  have c: "cache (the_router p') = cache (the_router p)"
    unfolding p' by (rule fold_evict_rest)
  show ?thesis
    unfolding own using len ts router srt c by auto
qed

lemma full_preloader_facts:
  "distinct (map fst (map preloaded_at [1..<26]))"
  "sorted (map (\<lambda>kv. info_timestamp (snd kv)) (map preloaded_at [1..<26]))"
  "length (map preloaded_at [1..<26]) = 25"
  "drop 5 (map preloaded_at [1..<26]) = map preloaded_at [6..<26]"
  by code_simp+


lemma full_preloader_fields:
  "own_preloadCache full_preloader = map preloaded_at [1..<26]"
  "maxCacheSize (config full_preloader) = 20"
  "preloadCache (the_router full_preloader) ''/page/6'' = Some Falsy"
  by (simp add: full_preloader_def fresh_preloader_def default_config_def, 
      simp add: full_preloader_def fresh_preloader_def default_config_def, code_simp)

lemma full_preloader_keys:
  "''/page/5'' \<in> fst ` (set (map preloaded_at [1..<26]) - set (map preloaded_at [6..<26]))"
  "''/page/6'' \<notin> fst ` (set (map preloaded_at [1..<26]) - set (map preloaded_at [6..<26]))"
  by code_simp+

theorem cleanupCache_tick_evicts_oldest_witness:
  "own_preloadCache (cleanupCache_tick full_preloader) = map preloaded_at [6..<26]
   \<and> length (own_preloadCache (cleanupCache_tick full_preloader)) = 20
   \<and> preloadCache (the_router (cleanupCache_tick full_preloader)) ''/page/5'' = None
   \<and> preloadCache (the_router (cleanupCache_tick full_preloader)) ''/page/6'' = Some Falsy"
proof -
  have d: "distinct (map fst (own_preloadCache full_preloader))"
    by (simp only: full_preloader_fields full_preloader_facts)
  have l: "length (own_preloadCache full_preloader) > maxCacheSize (config full_preloader)"
    by (simp add: full_preloader_fields full_preloader_facts)
  have s: "sorted (map (\<lambda>kv. info_timestamp (snd kv)) (own_preloadCache full_preloader))"
    by (simp only: full_preloader_fields full_preloader_facts)
  have n: "length (own_preloadCache full_preloader) - maxCacheSize (config full_preloader) = 5"
    by (simp add: full_preloader_fields full_preloader_facts)
  note t = cleanupCache_tick_evicts_oldest[OF d l refl]
  have own0: "own_preloadCache (cleanupCache_tick full_preloader)
      = drop (length (own_preloadCache full_preloader) - maxCacheSize (config full_preloader))
          (own_preloadCache full_preloader)"
    using t s by blast
  have own: "own_preloadCache (cleanupCache_tick full_preloader) = map preloaded_at [6..<26]"
    unfolding own0 n by (simp only: full_preloader_fields(1) full_preloader_facts(4))
  have len: "length (own_preloadCache (cleanupCache_tick full_preloader)) = 20"
    using t by (simp only: full_preloader_fields(2))
  have router: "preloadCache (the_router (cleanupCache_tick full_preloader)) href =
            (if href \<in> fst ` (set (map preloaded_at [1..<26]) - set (map preloaded_at [6..<26]))
             then None else preloadCache (the_router full_preloader) href)" for href
    using t unfolding own full_preloader_fields(1) by blast
  show ?thesis
    using own len router[of "''/page/5''"] router[of "''/page/6''"]
    by (simp only: full_preloader_fields full_preloader_keys if_True if_False simp_thms)
qed

section \<open>Capture and restore of a persistent region\<close>













lemma restored_from_twice: "restored_from n n' \<Longrightarrow> restored_from n (class_rewritten n)"
  by (simp add: restored_from_def)


lemma first_index_less: "first_index P xs = Some i \<Longrightarrow> i < length xs"
  by (induction xs arbitrary: i) (auto split: if_splits)

















lemmas persist_defs =
  captureComponentState_def restoreComponentState_def Let_def restore_active_def
  restore_form_def restore_toggle_def restore_field_def query_or_def querySelector_def
  well_formed_def matches_def in_scope_def getElementSelector_def getElementAttributes_def
  is_active_def is_form_def is_toggle_def form_entries_def fromEntries_def form_key_def
  toggle_key_def write_marks_def set_className_def setAttribute_def tokens_def
  is_space_def ident_start_def ident_char_def letter_def digit_def quotable_def
  getAttribute_def hasAttribute_def map_set_def assign_def plain_node_def


text \<open>
  An active link without id whose \<^verbatim>\<open>class\<close> attribute is a single space is recorded
  under the selector \<^verbatim>\<open>a.\<close>, and the restore raises a \<^verbatim>\<open>SyntaxError\<close>.
\<close>

lemma blank_class_raises:
  "dom_invariants (descendants blank_class_link)
   \<and> restoreComponentState blank_class_link (captureComponentState 1700000000000 blank_class_link)
       = Inl syntax_error"
  by (simp add: blank_class_link_def dom_invariants_def persist_defs)







end
